theory Spec2Isabelle
  imports Complex_Main "HOL-Library.Sublist"
begin

section \<open>Python values\<close>

text \<open>
  A Python \<open>str\<close> is a sequence of Unicode code points, so it is modelled as a list of
  natural numbers. \<open>lit\<close> turns an ASCII literal of the source into that representation.
\<close>

type_synonym pystr = "nat list"

definition lit :: "string \<Rightarrow> pystr" where
  "lit s = map of_char s"

text \<open>
  Exceptions are values. \<open>Exception\<close> stands for every instance of Python's class
  \<open>Exception\<close> and carries \<open>str(e)\<close>; \<open>KeyboardInterrupt\<close> and \<open>SystemExit\<close> derive from
  \<open>BaseException\<close> only, so a handler \<open>except Exception\<close> does not catch them
  (\<open>jarvis_main.py\<close> handles \<open>KeyboardInterrupt\<close> in \<open>_console_interaction_loop\<close>).
\<close>

datatype exn = Exception pystr | KeyboardInterrupt | SystemExit

fun is_Exception :: "exn \<Rightarrow> bool" where
  "is_Exception (Exception m) = True"
| "is_Exception KeyboardInterrupt = False"
| "is_Exception SystemExit = False"

fun str_of_exn :: "exn \<Rightarrow> pystr" where
  "str_of_exn (Exception m) = m"
| "str_of_exn KeyboardInterrupt = []"
| "str_of_exn SystemExit = []"

datatype pyval =
    VNone
  | VBool bool
  | VInt int
  | VFloat real
  | VStr pystr
  | VDateTime nat
  | VList "pyval list"
  | VDict "(pystr \<times> pyval) list"

text \<open>Truthiness of a value, as \<open>if v:\<close> tests it.\<close>

fun truthy :: "pyval \<Rightarrow> bool" where
  "truthy VNone = False"
| "truthy (VBool b) = b"
| "truthy (VInt i) = (i \<noteq> 0)"
| "truthy (VFloat x) = (x \<noteq> 0)"
| "truthy (VStr s) = (s \<noteq> [])"
| "truthy (VDateTime t) = True"
| "truthy (VList xs) = (xs \<noteq> [])"
| "truthy (VDict d) = (d \<noteq> [])"

text \<open>
  Storing a key in a dict: an existing key keeps its position, a new key goes to the end.
\<close>

fun dict_set :: "(pystr \<times> 'v) list \<Rightarrow> pystr \<Rightarrow> 'v \<Rightarrow> (pystr \<times> 'v) list" where
  "dict_set [] k v = [(k, v)]"
| "dict_set ((k', v') # d) k v = (if k' = k then (k, v) # d else (k', v') # dict_set d k v)"

section \<open>The Unicode data of the Python runtime\<close>

text \<open>
  \<open>str.lower\<close>, \<open>\w\<close> and \<open>re.IGNORECASE\<close> consult the Unicode character database of the
  Python runtime. For ASCII code points the model spells the result out; for the others the
  database is a parameter:
  \<^item> \<open>ulower before c after\<close> is what \<open>lower()\<close> writes for the non-ASCII code point \<open>c\<close>
    standing between \<open>before\<close> and \<open>after\<close> (the context matters for the final sigma);
  \<^item> \<open>ualnum c\<close> says whether the non-ASCII code point \<open>c\<close> is alphanumeric (\<open>\w\<close>);
  \<^item> \<open>uci l c\<close> says whether the non-ASCII code point \<open>c\<close> of the text matches the
    lower-case ASCII letter \<open>l\<close> of a pattern under \<open>re.IGNORECASE\<close>.
\<close>

record ucd =
  ulower :: "pystr \<Rightarrow> nat \<Rightarrow> pystr \<Rightarrow> pystr"
  ualnum :: "nat \<Rightarrow> bool"
  uci :: "nat \<Rightarrow> nat \<Rightarrow> bool"

definition is_ascii_upper :: "nat \<Rightarrow> bool" where
  "is_ascii_upper c = (65 \<le> c \<and> c \<le> 90)"

definition is_ascii_lower :: "nat \<Rightarrow> bool" where
  "is_ascii_lower c = (97 \<le> c \<and> c \<le> 122)"

definition is_ascii_letter :: "nat \<Rightarrow> bool" where
  "is_ascii_letter c = (is_ascii_upper c \<or> is_ascii_lower c)"

definition ascii_lower :: "nat \<Rightarrow> nat" where
  "ascii_lower c = (if is_ascii_upper c then c + 32 else c)"

definition lower_char :: "ucd \<Rightarrow> pystr \<Rightarrow> nat \<Rightarrow> pystr \<Rightarrow> pystr" where
  "lower_char u before c after =
     (if c < 128 then [ascii_lower c] else ulower u before c after)"

fun lower_from :: "ucd \<Rightarrow> pystr \<Rightarrow> pystr \<Rightarrow> pystr" where
  "lower_from u before [] = []"
| "lower_from u before (c # rest) =
     lower_char u before c rest @ lower_from u (before @ [c]) rest"

text \<open>\<open>s.lower()\<close>\<close>

definition py_lower :: "ucd \<Rightarrow> pystr \<Rightarrow> pystr" where
  "py_lower u s = lower_from u [] s"

text \<open>\<open>w in s\<close> on strings is the substring test.\<close>

definition py_in :: "pystr \<Rightarrow> pystr \<Rightarrow> bool" where
  "py_in w s = sublist w s"

section \<open>Regular expressions of the language patterns\<close>

text \<open>
  The source uses two shapes of pattern, always with \<open>re.IGNORECASE\<close>: a character class
  given by ranges, and \<open>\b(w1|w2|...)\b\<close>, an alternation of literal words between word
  boundaries. \<open>findall_count\<close> is \<open>len(re.findall(pattern, text, re.IGNORECASE))\<close>.
\<close>

datatype pattern = CharClass "(nat \<times> nat) list" | WordAlt "pystr list"

definition in_ranges :: "(nat \<times> nat) list \<Rightarrow> nat \<Rightarrow> bool" where
  "in_ranges rs c = list_ex (\<lambda>(lo, hi). lo \<le> c \<and> c \<le> hi) rs"

definition class_matches :: "ucd \<Rightarrow> (nat \<times> nat) list \<Rightarrow> nat \<Rightarrow> bool" where
  "class_matches u rs c =
     (in_ranges rs c
      \<or> (is_ascii_upper c \<and> in_ranges rs (c + 32))
      \<or> (is_ascii_lower c \<and> in_ranges rs (c - 32))
      \<or> (128 \<le> c \<and> list_ex (\<lambda>l. (in_ranges rs l \<or> in_ranges rs (l - 32)) \<and> uci u l c) [97..<123]))"

definition is_word :: "ucd \<Rightarrow> nat \<Rightarrow> bool" where
  "is_word u c =
     (if c < 128 then (48 \<le> c \<and> c \<le> 57) \<or> is_ascii_letter c \<or> c = 95 else ualnum u c)"

definition is_word_opt :: "ucd \<Rightarrow> nat option \<Rightarrow> bool" where
  "is_word_opt u x = (case x of None \<Rightarrow> False | Some c \<Rightarrow> is_word u c)"

text \<open>\<open>\b\<close> between the code point before a position and the one at it (None: no such).\<close>

definition word_boundary :: "ucd \<Rightarrow> nat option \<Rightarrow> nat option \<Rightarrow> bool" where
  "word_boundary u prev nxt = (is_word_opt u prev \<noteq> is_word_opt u nxt)"

text \<open>The literal \<open>p\<close> of a pattern against the code point \<open>c\<close> of the text.\<close>

definition char_matches :: "ucd \<Rightarrow> nat \<Rightarrow> nat \<Rightarrow> bool" where
  "char_matches u p c =
     (c = p \<or> (is_ascii_letter p \<and>
        (if c < 128 then ascii_lower c = ascii_lower p else uci u (ascii_lower p) c)))"

fun match_word :: "ucd \<Rightarrow> pystr \<Rightarrow> pystr \<Rightarrow> bool" where
  "match_word u [] t = True"
| "match_word u (p # ps) [] = False"
| "match_word u (p # ps) (c # cs) = (char_matches u p c \<and> match_word u ps cs)"

definition first_opt :: "pystr \<Rightarrow> nat option" where
  "first_opt t = (case t of [] \<Rightarrow> None | c # _ \<Rightarrow> Some c)"

definition word_fits :: "ucd \<Rightarrow> nat option \<Rightarrow> pystr \<Rightarrow> pystr \<Rightarrow> bool" where
  "word_fits u prev t w =
     (match_word u w t \<and>
      word_boundary u (if w = [] then prev else Some (last (take (length w) t)))
                      (first_opt (drop (length w) t)))"

text \<open>
  The alternation at one position: the leading \<open>\b\<close>, then the first word of the list that
  matches and is followed by \<open>\b\<close>. The result is the length of the match.
\<close>

definition alt_match :: "ucd \<Rightarrow> pystr list \<Rightarrow> nat option \<Rightarrow> pystr \<Rightarrow> nat option" where
  "alt_match u ws prev t =
     (if word_boundary u prev (first_opt t)
      then map_option length (find (word_fits u prev t) ws)
      else None)"

text \<open>
  The scan of \<open>findall\<close>: matches do not overlap, so after a match of length \<open>n\<close> the next
  \<open>n - 1\<close> positions are skipped. The words of the source's patterns are not empty.
\<close>

fun count_words :: "ucd \<Rightarrow> pystr list \<Rightarrow> nat option \<Rightarrow> nat \<Rightarrow> pystr \<Rightarrow> nat" where
  "count_words u ws prev skip [] = 0"
| "count_words u ws prev skip (c # cs) =
     (if 0 < skip then count_words u ws (Some c) (skip - 1) cs
      else case alt_match u ws prev (c # cs) of
             Some n \<Rightarrow> 1 + count_words u ws (Some c) (n - 1) cs
           | None \<Rightarrow> count_words u ws (Some c) 0 cs)"

fun findall_count :: "ucd \<Rightarrow> pattern \<Rightarrow> pystr \<Rightarrow> nat" where
  "findall_count u (CharClass rs) t = length (filter (class_matches u rs) t)"
| "findall_count u (WordAlt ws) t = count_words u ws None 0 t"

section \<open>LanguageManager (utils/language_manager.py)\<close>

text \<open>The default tables of \<open>_load_translations\<close>, one entry per key of the source.\<close>

definition english_translations :: "(pystr \<times> pystr) list" where
  "english_translations = [
     (lit ''welcome_message'', lit ''Good evening, Sir. JARVIS is online and ready to assist you.''),
     (lit ''user_prompt'', lit ''You''),
     (lit ''error_processing'', lit ''I apologize, Sir. There seems to be an issue processing your request.''),
     (lit ''api_error'', lit ''I'' @ [39] @ lit ''m experiencing connectivity issues with my AI systems, Sir.''),
     (lit ''ai_error'', lit ''My AI processing systems are temporarily unavailable, Sir.''),
     (lit ''language_switched'', lit ''Language switched successfully, Sir.''),
     (lit ''invalid_language'', lit ''I'' @ [39] @ lit ''m sorry, Sir. That language is not supported.''),
     (lit ''shutdown_message'', lit ''Goodbye, Sir. JARVIS going offline.''),
     (lit ''system_status'', lit ''System Status''),
     (lit ''cpu_usage'', lit ''CPU Usage''),
     (lit ''memory_usage'', lit ''Memory Usage''),
     (lit ''disk_usage'', lit ''Disk Usage''),
     (lit ''network_activity'', lit ''Network Activity''),
     (lit ''temperature'', lit ''Temperature''),
     (lit ''uptime'', lit ''Uptime''),
     (lit ''processes'', lit ''Active Processes''),
     (lit ''listening'', lit ''Listening...''),
     (lit ''processing'', lit ''Processing your request, Sir...''),
     (lit ''command_executed'', lit ''Command executed successfully, Sir.''),
     (lit ''command_failed'', lit ''I'' @ [39] @ lit ''m sorry, Sir. The command could not be executed.''),
     (lit ''file_created'', lit ''File created successfully, Sir.''),
     (lit ''file_deleted'', lit ''File deleted successfully, Sir.''),
     (lit ''application_launched'', lit ''Application launched, Sir.''),
     (lit ''system_locked'', lit ''System locked, Sir.''),
     (lit ''system_shutdown'', lit ''System shutdown initiated, Sir.''),
     (lit ''voice_mode_on'', lit ''Voice mode activated, Sir.''),
     (lit ''voice_mode_off'', lit ''Voice mode deactivated, Sir.''),
     (lit ''learning_mode_on'', lit ''Learning mode activated, Sir.''),
     (lit ''learning_mode_off'', lit ''Learning mode deactivated, Sir.'')
   ]"

definition hindi_translations :: "(pystr \<times> pystr) list" where
  "hindi_translations = [
     (lit ''welcome_message'', [2344, 2350, 2360, 2381, 2325, 2366, 2352, 32, 2360, 2366, 2361, 2348, 2404, 32, 2332, 2366, 2352, 2381, 2357, 2367, 2360, 32, 2321, 2344, 2354, 2366, 2311, 2344, 32, 2361, 2376, 32, 2324, 2352, 32, 2310, 2346, 2325, 2368, 32, 2360, 2375, 2357, 2366, 32, 2325, 2375, 32, 2354, 2367, 2319, 32, 2340, 2376, 2351, 2366, 2352, 32, 2361, 2376, 2404]),
     (lit ''user_prompt'', [2310, 2346]),
     (lit ''error_processing'', [2350, 2369, 2333, 2375, 32, 2326, 2375, 2342, 32, 2361, 2376, 32, 2360, 2366, 2361, 2348, 2404, 32, 2310, 2346, 2325, 2375, 32, 2309, 2344, 2369, 2352, 2379, 2343, 32, 2325, 2379, 32, 2360, 2306, 2360, 2366, 2343, 2367, 2340, 32, 2325, 2352, 2344, 2375, 32, 2350, 2375, 2306, 32, 2325, 2379, 2312, 32, 2360, 2350, 2360, 2381, 2351, 2366, 32, 2361, 2376, 2404]),
     (lit ''api_error'', [2360, 2366, 2361, 2348, 44, 32, 2350, 2375, 2352, 2375, 32, 65, 73, 32, 2360, 2367, 2360, 2381, 2335, 2350, 32, 2350, 2375, 2306, 32, 2325, 2344, 2375, 2325, 2381, 2335, 2367, 2357, 2367, 2335, 2368, 32, 2325, 2368, 32, 2360, 2350, 2360, 2381, 2351, 2366, 32, 2361, 2376, 2404]),
     (lit ''ai_error'', [2360, 2366, 2361, 2348, 44, 32, 2350, 2375, 2352, 2375, 32, 65, 73, 32, 2346, 2381, 2352, 2379, 2360, 2375, 2360, 2367, 2306, 2327, 32, 2360, 2367, 2360, 2381, 2335, 2350, 32, 2309, 2360, 2381, 2341, 2366, 2351, 2368, 32, 2352, 2370, 2346, 32, 2360, 2375, 32, 2309, 2344, 2369, 2346, 2354, 2348, 2381, 2343, 32, 2361, 2376, 2306, 2404]),
     (lit ''language_switched'', [2349, 2366, 2359, 2366, 32, 2360, 2347, 2354, 2340, 2366, 2346, 2370, 2352, 2381, 2357, 2325, 32, 2348, 2342, 2354, 32, 2342, 2368, 32, 2327, 2312, 44, 32, 2360, 2366, 2361, 2348, 2404]),
     (lit ''invalid_language'', [2350, 2369, 2333, 2375, 32, 2326, 2375, 2342, 32, 2361, 2376, 32, 2360, 2366, 2361, 2348, 2404, 32, 2357, 2361, 32, 2349, 2366, 2359, 2366, 32, 2360, 2350, 2352, 2381, 2341, 2367, 2340, 32, 2344, 2361, 2368, 2306, 32, 2361, 2376, 2404]),
     (lit ''shutdown_message'', [2309, 2354, 2357, 2367, 2342, 2366, 32, 2360, 2366, 2361, 2348, 2404, 32, 2332, 2366, 2352, 2381, 2357, 2367, 2360, 32, 2321, 2347, 2354, 2366, 2311, 2344, 32, 2361, 2379, 32, 2352, 2361, 2366, 32, 2361, 2376, 2404]),
     (lit ''system_status'', [2360, 2367, 2360, 2381, 2335, 2350, 32, 2360, 2381, 2341, 2367, 2340, 2367]),
     (lit ''cpu_usage'', [67, 80, 85, 32, 2313, 2346, 2351, 2379, 2327]),
     (lit ''memory_usage'', [2350, 2375, 2350, 2379, 2352, 2368, 32, 2313, 2346, 2351, 2379, 2327]),
     (lit ''disk_usage'', [2337, 2367, 2360, 2381, 2325, 32, 2313, 2346, 2351, 2379, 2327]),
     (lit ''network_activity'', [2344, 2375, 2335, 2357, 2352, 2381, 2325, 32, 2327, 2340, 2367, 2357, 2367, 2343, 2367]),
     (lit ''temperature'', [2340, 2366, 2346, 2350, 2366, 2344]),
     (lit ''uptime'', [2309, 2346, 2335, 2366, 2311, 2350]),
     (lit ''processes'', [2360, 2325, 2381, 2352, 2367, 2351, 32, 2346, 2381, 2352, 2325, 2381, 2352, 2367, 2351, 2366, 2319, 2306]),
     (lit ''listening'', [2360, 2369, 2344, 32, 2352, 2361, 2366, 32, 2361, 2370, 2306, 46, 46, 46]),
     (lit ''processing'', [2310, 2346, 2325, 2375, 32, 2309, 2344, 2369, 2352, 2379, 2343, 32, 2325, 2379, 32, 2360, 2306, 2360, 2366, 2343, 2367, 2340, 32, 2325, 2352, 32, 2352, 2361, 2366, 32, 2361, 2370, 2306, 44, 32, 2360, 2366, 2361, 2348, 46, 46, 46]),
     (lit ''command_executed'', [2325, 2350, 2366, 2306, 2337, 32, 2360, 2347, 2354, 2340, 2366, 2346, 2370, 2352, 2381, 2357, 2325, 32, 2344, 2367, 2359, 2381, 2346, 2366, 2342, 2367, 2340, 44, 32, 2360, 2366, 2361, 2348, 2404]),
     (lit ''command_failed'', [2350, 2369, 2333, 2375, 32, 2326, 2375, 2342, 32, 2361, 2376, 32, 2360, 2366, 2361, 2348, 2404, 32, 2325, 2350, 2366, 2306, 2337, 32, 2344, 2367, 2359, 2381, 2346, 2366, 2342, 2367, 2340, 32, 2344, 2361, 2368, 2306, 32, 2361, 2379, 32, 2360, 2325, 2366, 2404]),
     (lit ''file_created'', [2347, 2366, 2311, 2354, 32, 2360, 2347, 2354, 2340, 2366, 2346, 2370, 2352, 2381, 2357, 2325, 32, 2348, 2344, 2366, 2312, 32, 2327, 2312, 44, 32, 2360, 2366, 2361, 2348, 2404]),
     (lit ''file_deleted'', [2347, 2366, 2311, 2354, 32, 2360, 2347, 2354, 2340, 2366, 2346, 2370, 2352, 2381, 2357, 2325, 32, 2361, 2335, 2366, 2312, 32, 2327, 2312, 44, 32, 2360, 2366, 2361, 2348, 2404]),
     (lit ''application_launched'', [2319, 2346, 2381, 2354, 2367, 2325, 2375, 2358, 2344, 32, 2354, 2377, 2344, 2381, 2330, 32, 2325, 2367, 2351, 2366, 32, 2327, 2351, 2366, 44, 32, 2360, 2366, 2361, 2348, 2404]),
     (lit ''system_locked'', [2360, 2367, 2360, 2381, 2335, 2350, 32, 2354, 2377, 2325, 32, 2325, 2367, 2351, 2366, 32, 2327, 2351, 2366, 44, 32, 2360, 2366, 2361, 2348, 2404]),
     (lit ''system_shutdown'', [2360, 2367, 2360, 2381, 2335, 2350, 32, 2358, 2335, 2337, 2366, 2313, 2344, 32, 2358, 2369, 2352, 2370, 32, 2325, 2367, 2351, 2366, 32, 2327, 2351, 2366, 44, 32, 2360, 2366, 2361, 2348, 2404]),
     (lit ''voice_mode_on'', [2357, 2377, 2351, 2360, 32, 2350, 2379, 2337, 32, 2360, 2325, 2381, 2352, 2367, 2351, 32, 2325, 2367, 2351, 2366, 32, 2327, 2351, 2366, 44, 32, 2360, 2366, 2361, 2348, 2404]),
     (lit ''voice_mode_off'', [2357, 2377, 2351, 2360, 32, 2350, 2379, 2337, 32, 2344, 2367, 2359, 2381, 2325, 2381, 2352, 2367, 2351, 32, 2325, 2367, 2351, 2366, 32, 2327, 2351, 2366, 44, 32, 2360, 2366, 2361, 2348, 2404]),
     (lit ''learning_mode_on'', [2354, 2352, 2381, 2344, 2367, 2306, 2327, 32, 2350, 2379, 2337, 32, 2360, 2325, 2381, 2352, 2367, 2351, 32, 2325, 2367, 2351, 2366, 32, 2327, 2351, 2366, 44, 32, 2360, 2366, 2361, 2348, 2404]),
     (lit ''learning_mode_off'', [2354, 2352, 2381, 2344, 2367, 2306, 2327, 32, 2350, 2379, 2337, 32, 2344, 2367, 2359, 2381, 2325, 2381, 2352, 2367, 2351, 32, 2325, 2367, 2351, 2366, 32, 2327, 2351, 2366, 44, 32, 2360, 2366, 2361, 2348, 2404])
   ]"

definition default_translations :: "(pystr \<times> (pystr \<times> pystr) list) list" where
  "default_translations =
     [(lit ''english'', english_translations), (lit ''hindi'', hindi_translations)]"

text \<open>The field \<open>lm_translations\<close> is \<open>self.translations\<close> of the source.\<close>

record LanguageManager =
  current_language :: pystr
  supported_languages :: "pystr list"
  lm_translations :: "(pystr \<times> (pystr \<times> pystr) list) list"

text \<open>\<open>__init__\<close>, when no file \<open>data/translations.json\<close> overrides the defaults.\<close>

definition LanguageManager_init :: LanguageManager where
  "LanguageManager_init =
     \<lparr> current_language = lit ''english'',
       supported_languages = [lit ''english'', lit ''hindi''],
       lm_translations = default_translations \<rparr>"

text \<open>\<open>_load_language_patterns\<close>\<close>

definition hindi_patterns :: "pattern list" where
  "hindi_patterns =
     [CharClass [(2304, 2431)],
      WordAlt [[2325, 2381, 2351, 2366], [2325, 2376, 2360, 2375], [2325, 2361, 2366, 2305],
               [2325, 2348], [2325, 2381, 2351, 2379, 2306],
               [2332, 2366, 2352, 2381, 2357, 2367, 2360],
               [2360, 2367, 2360, 2381, 2335, 2350], [2347, 2366, 2311, 2354],
               [2326, 2379, 2354, 2379], [2348, 2306, 2342], [2325, 2352, 2379],
               [2342, 2367, 2326, 2366, 2323], [2348, 2340, 2366, 2323]],
      WordAlt [[2310, 2346], [2350, 2376, 2306], [2361, 2350], [2351, 2361], [2357, 2361],
               [2325, 2380, 2344], [2325, 2367, 2360, 2325, 2366],
               [2325, 2367, 2360, 2325, 2379]]]"

definition english_patterns :: "pattern list" where
  "english_patterns =
     [CharClass [(97, 122), (65, 90)],
      WordAlt [lit ''what'', lit ''how'', lit ''where'', lit ''when'', lit ''why'',
               lit ''jarvis'', lit ''system'', lit ''file'', lit ''open'', lit ''close'',
               lit ''show'', lit ''tell'', lit ''the'', lit ''and'', lit ''or'', lit ''but''],
      WordAlt [lit ''you'', lit ''i'', lit ''we'', lit ''this'', lit ''that'', lit ''who'',
               lit ''whose'', lit ''whom'']]"

definition language_patterns :: "(pystr \<times> pattern list) list" where
  "language_patterns = [(lit ''hindi'', hindi_patterns), (lit ''english'', english_patterns)]"

text \<open>
  \<open>detect_language\<close>. The dict \<open>scores\<close> is a function from the language to its count; the
  two nested loops are two folds. Nothing in the body raises on a \<open>str\<close>, so the handler
  \<open>except Exception\<close> (which returns the current language) has no branch here.
\<close>

definition add_matches :: "ucd \<Rightarrow> pystr \<Rightarrow> pystr \<Rightarrow> pattern \<Rightarrow> (pystr \<Rightarrow> nat) \<Rightarrow> (pystr \<Rightarrow> nat)" where
  "add_matches u text_lower language pat scores =
     scores (language := scores language + findall_count u pat text_lower)"

definition score_language :: "ucd \<Rightarrow> pystr \<Rightarrow> pystr \<times> pattern list \<Rightarrow> (pystr \<Rightarrow> nat) \<Rightarrow> (pystr \<Rightarrow> nat)" where
  "score_language u text_lower lp scores =
     fold (add_matches u text_lower (fst lp)) (snd lp) scores"

definition detect_language :: "ucd \<Rightarrow> LanguageManager \<Rightarrow> pystr \<Rightarrow> pystr" where
  "detect_language u lm text =
     (if text = [] then current_language lm
      else
        let text_lower = py_lower u text;
            scores = fold (score_language u text_lower) language_patterns (\<lambda>_. 0)
        in if scores (lit ''hindi'') > scores (lit ''english'') then lit ''hindi''
           else if scores (lit ''english'') > scores (lit ''hindi'') then lit ''english''
           else current_language lm)"

definition set_language :: "ucd \<Rightarrow> LanguageManager \<Rightarrow> pystr \<Rightarrow> LanguageManager" where
  "set_language u lm language =
     (if py_lower u language \<in> set (supported_languages lm)
      then lm \<lparr> current_language := py_lower u language \<rparr>
      else lm)"

text \<open>
  \<open>get_text\<close>: the table of the language, then the English table, then the key itself.
  The lookups cannot raise, so the handler of the source has no branch here.
\<close>

definition lookup_text :: "(pystr \<times> (pystr \<times> pystr) list) list \<Rightarrow> pystr \<Rightarrow> pystr \<Rightarrow> pystr option" where
  "lookup_text tr lang key =
     (case map_of tr lang of None \<Rightarrow> None | Some tbl \<Rightarrow> map_of tbl key)"

definition get_text :: "LanguageManager \<Rightarrow> pystr \<Rightarrow> pystr option \<Rightarrow> pystr" where
  "get_text lm key language =
     (let lang = (case language of
                    None \<Rightarrow> current_language lm
                  | Some l \<Rightarrow> if l = [] then current_language lm else l)
      in case lookup_text (lm_translations lm) lang key of
           Some v \<Rightarrow> v
         | None \<Rightarrow>
             (case lookup_text (lm_translations lm) (lit ''english'') key of
                Some v \<Rightarrow> v
              | None \<Rightarrow> key))"


section \<open>Exceptions and the environment\<close>

text \<open>
  A computation that may raise returns \<open>exn + 'a\<close>, with \<open>Inl\<close> the exception.
  \<open>bind_exn\<close> is sequencing; \<open>try_except\<close> is
  \<^verbatim>\<open>try: body  except Exception as e: handler(e)\<close>, which lets \<open>KeyboardInterrupt\<close> and
  \<open>SystemExit\<close> through.
\<close>

definition bind_exn :: "exn + 'a \<Rightarrow> ('a \<Rightarrow> exn + 'b) \<Rightarrow> exn + 'b" where
  "bind_exn m f = (case m of Inl e \<Rightarrow> Inl e | Inr x \<Rightarrow> f x)"

definition try_except :: "exn + 'a \<Rightarrow> (exn \<Rightarrow> exn + 'a) \<Rightarrow> exn + 'a" where
  "try_except body handler =
     (case body of
        Inl e \<Rightarrow> if is_Exception e then handler e else Inl e
      | Inr x \<Rightarrow> Inr x)"

text \<open>\<open>d.get(k, default)\<close>: a value that is not a dict has no attribute \<open>get\<close>.\<close>

definition no_attribute :: "string \<Rightarrow> string \<Rightarrow> exn" where
  "no_attribute cls attr =
     Exception ([39] @ lit cls @ [39] @ lit '' object has no attribute '' @ [39] @ lit attr @ [39])"

fun val_get :: "pyval \<Rightarrow> pystr \<Rightarrow> pyval \<Rightarrow> exn + pyval" where
  "val_get (VDict d) k dflt = Inr (case map_of d k of Some v \<Rightarrow> v | None \<Rightarrow> dflt)"
| "val_get VNone k dflt = Inl (no_attribute ''NoneType'' ''get'')"
| "val_get (VBool b) k dflt = Inl (no_attribute ''bool'' ''get'')"
| "val_get (VInt i) k dflt = Inl (no_attribute ''int'' ''get'')"
| "val_get (VFloat x) k dflt = Inl (no_attribute ''float'' ''get'')"
| "val_get (VStr s) k dflt = Inl (no_attribute ''str'' ''get'')"
| "val_get (VDateTime t) k dflt = Inl (no_attribute ''datetime.datetime'' ''get'')"
| "val_get (VList xs) k dflt = Inl (no_attribute ''list'' ''get'')"

record message =
  role :: pystr
  content :: pystr

text \<open>
  The answer of \<open>requests.post\<close>: the status code, and what evaluating
  \<^verbatim>\<open>response.json()['choices'][0]['message']['content'].strip()\<close> gives on its body.
\<close>

record http_response =
  status_code :: int
  body_content :: "exn + pystr"

text \<open>
  Everything outside the program that one command touches, as the outcome of each call:
  the Unicode data, the formatting built-ins (\<open>str_of\<close> for a value inside an f-string,
  \<open>fmt_2f\<close> for \<open>:.2f\<close>), the clock (\<open>fromisoformat\<close> gives the hour and the weekday of a parsed time stamp), the
  text-generation service, and the collaborators whose bodies reach the operating system:
  \<open>user_context_body\<close> is the dict display inside \<open>LearningEngine.get_user_context\<close>,
  \<open>system_handler name parameters\<close> and \<open>hardware_handler name\<close> are the handler methods
  that the two \<open>execute_command\<close> select. \<open>get_system_load\<close> and
  \<open>get_active_applications\<close> are called on the system controller by
  \<open>_get_environment_context\<close>; the class \<open>SystemController\<close> of the source defines neither,
  so there the outcome of both calls is the \<open>AttributeError\<close> \<open>missing_method\<close> below.
\<close>

record env =
  unicode :: ucd
  str_of :: "pyval \<Rightarrow> pystr"
  fmt_2f :: "real \<Rightarrow> pystr"
  now :: pyval
  now_isoformat :: pystr
  strftime_HM :: pystr
  strftime_A :: pystr
  elapsed :: real
  requests_post :: "message list \<Rightarrow> exn + http_response"
  get_system_load :: "exn + pyval"
  get_active_applications :: "exn + pyval"
  network_get_status :: "exn + pyval"
  user_context_body :: "exn + pyval"
  now_hour :: int
  now_weekday :: int
  fromisoformat :: "pystr \<Rightarrow> exn + int \<times> int"
  system_handler :: "pystr \<Rightarrow> pyval \<Rightarrow> exn + pystr"
  hardware_handler :: "pystr \<Rightarrow> exn + pystr"

definition missing_method :: "string \<Rightarrow> exn" where
  "missing_method name = no_attribute ''SystemController'' name"

section \<open>JARVISBrain (core/jarvis_brain.py)\<close>

text \<open>
  The dataclass \<open>AIResponse\<close>. The fields \<open>text\<close> and \<open>context\<close> of the source are
  \<open>response_text\<close> and \<open>response_context\<close> here.
\<close>

record AIResponse =
  response_text :: pystr
  confidence :: real
  requires_system_action :: bool
  requires_hardware_action :: bool
  system_command :: "pystr option"
  hardware_command :: "pystr option"
  parameters :: "(pystr \<times> pyval) list option"
  response_context :: "(pystr \<times> pyval) list option"
  success :: bool

text \<open>The constructor with the defaults of the dataclass.\<close>

definition AIResponse_new :: "pystr \<Rightarrow> real \<Rightarrow> AIResponse" where
  "AIResponse_new t c =
     \<lparr> response_text = t, confidence = c,
       requires_system_action = False, requires_hardware_action = False,
       system_command = None, hardware_command = None,
       parameters = None, response_context = None, success = True \<rparr>"

record JARVISBrain =
  language_manager :: LanguageManager
  system_prompt :: "pystr option"
  conversation_history :: "message list"
  response_times :: "real list"
  success_rate :: real
  total_queries :: nat
  successful_queries :: nat

text \<open>
  \<open>__init__\<close> leaves \<open>system_prompt\<close> unset; \<open>_initialize_personality\<close> (called by
  \<open>initialize\<close>) sets it.
\<close>

definition JARVISBrain_init :: JARVISBrain where
  "JARVISBrain_init =
     \<lparr> language_manager = LanguageManager_init, system_prompt = None,
       conversation_history = [], response_times = [], success_rate = 0,
       total_queries = 0, successful_queries = 0 \<rparr>"

text \<open>The dict \<open>intent\<close> of \<open>_analyze_intent\<close>, one field per key.\<close>

record intent =
  intent_type :: pystr
  intent_confidence :: real
  entities :: "pyval list"
  action :: pyval
  intent_parameters :: "(pystr \<times> pyval) list"

definition any_in :: "pystr list \<Rightarrow> pystr \<Rightarrow> bool" where
  "any_in ws s = list_ex (\<lambda>w. py_in w s) ws"

definition analyze_intent :: "ucd \<Rightarrow> pystr \<Rightarrow> intent" where
  "analyze_intent u command =
     (let intent = \<lparr> intent_type = lit ''general'', intent_confidence = 0.5, entities = [],
                      action = VNone, intent_parameters = [] \<rparr>;
          command_lower = py_lower u command
      in if any_in [lit ''shutdown'', lit ''restart'', lit ''sleep'', lit ''lock''] command_lower
         then intent \<lparr> intent_type := lit ''system_control'', intent_confidence := 0.9 \<rparr>
         else if any_in [lit ''open'', lit ''create'', lit ''delete'', lit ''file''] command_lower
         then intent \<lparr> intent_type := lit ''file_operation'', intent_confidence := 0.8 \<rparr>
         else if any_in [lit ''launch'', lit ''start'', lit ''close'', lit ''app''] command_lower
         then intent \<lparr> intent_type := lit ''application_control'', intent_confidence := 0.8 \<rparr>
         else if any_in [lit ''what'', lit ''how'', lit ''when'', lit ''where'', lit ''why''] command_lower
         then intent \<lparr> intent_type := lit ''information_request'', intent_confidence := 0.7 \<rparr>
         else if any_in [lit ''status'', lit ''health'', lit ''performance''] command_lower
         then intent \<lparr> intent_type := lit ''system_status'', intent_confidence := 0.9 \<rparr>
         else intent)"

text \<open>The dict returned by \<open>_check_system_commands\<close>.\<close>

record system_action =
  required :: bool
  action_type :: pystr
  action_command :: pystr
  action_parameters :: "(pystr \<times> pyval) list"

definition check_system_commands :: "pystr \<Rightarrow> intent \<Rightarrow> system_action option" where
  "check_system_commands command i =
     (if intent_type i \<in> set [lit ''system_control'', lit ''file_operation'',
                               lit ''application_control'', lit ''system_status'']
      then Some \<lparr> required = True, action_type = intent_type i, action_command = command,
                  action_parameters = intent_parameters i \<rparr>
      else None)"

text \<open>
  \<open>_prepare_messages\<close>. Reading \<open>self.system_prompt\<close> before \<open>initialize\<close> has set it
  raises; so does \<open>.get\<close> on a \<open>system_state\<close> entry that is not a dict.
\<close>

definition context_info :: "env \<Rightarrow> (pystr \<times> pyval) list \<Rightarrow> intent \<Rightarrow> exn + pystr" where
  "context_info e ctx i =
     bind_exn (val_get (VDict ctx) (lit ''timestamp'') (VStr (lit ''Unknown''))) (\<lambda>ts.
     bind_exn (val_get (VDict ctx) (lit ''language'') (VStr (lit ''english''))) (\<lambda>lang.
     bind_exn (val_get (VDict ctx) (lit ''system_state'') (VDict [])) (\<lambda>st.
     bind_exn (val_get st (lit ''cpu_percent'') (VStr (lit ''Unknown''))) (\<lambda>cpu.
       Inr ([10] @ lit ''Current Context:'' @ [10]
            @ lit ''- Time: '' @ str_of e ts @ [10]
            @ lit ''- Language: '' @ str_of e lang @ [10]
            @ lit ''- System Load: '' @ str_of e cpu @ [37, 10]
            @ lit ''- Intent: '' @ intent_type i @ lit '' (confidence: ''
            @ fmt_2f e (intent_confidence i) @ [41, 10])))))"

definition prepare_messages ::
  "env \<Rightarrow> JARVISBrain \<Rightarrow> pystr \<Rightarrow> (pystr \<times> pyval) list option \<Rightarrow> intent \<Rightarrow> exn + message list" where
  "prepare_messages e b command ctx i =
     (case system_prompt b of
        None \<Rightarrow> Inl (no_attribute ''JARVISBrain'' ''system_prompt'')
      | Some prompt \<Rightarrow>
          let messages = [\<lparr> role = lit ''system'', content = prompt \<rparr>];
              recent_history =
                (if conversation_history b \<noteq> []
                 then drop (length (conversation_history b) - 5) (conversation_history b)
                 else []);
              messages = messages @ recent_history
          in bind_exn
               (case ctx of
                  None \<Rightarrow> Inr messages
                | Some d \<Rightarrow>
                    if d \<noteq> []
                    then bind_exn (context_info e d i) (\<lambda>info.
                           Inr (messages @ [\<lparr> role = lit ''system'', content = info \<rparr>]))
                    else Inr messages)
               (\<lambda>messages. Inr (messages @ [\<lparr> role = lit ''user'', content = command \<rparr>])))"

text \<open>\<open>_get_ai_response\<close>\<close>

definition get_ai_response :: "env \<Rightarrow> JARVISBrain \<Rightarrow> message list \<Rightarrow> exn + pystr" where
  "get_ai_response e b messages =
     try_except
       (bind_exn (requests_post e messages) (\<lambda>response.
          if status_code response = 200
          then body_content response
          else Inr (get_text (language_manager b) (lit ''api_error'') None)))
       (\<lambda>ex. Inr (get_text (language_manager b) (lit ''ai_error'') None))"

text \<open>\<open>_process_ai_response\<close>\<close>

definition process_ai_response ::
  "pystr \<Rightarrow> system_action option \<Rightarrow> (pystr \<times> pyval) list option \<Rightarrow> AIResponse" where
  "process_ai_response ai_text sa ctx =
     (let response = (AIResponse_new ai_text 0.8) \<lparr> response_context := ctx \<rparr>
      in case sa of
           None \<Rightarrow> response
         | Some a \<Rightarrow>
             response \<lparr> requires_system_action := True,
                        system_command := Some (action_type a),
                        parameters := Some (action_parameters a) \<rparr>)"

text \<open>\<open>_update_conversation_history\<close>: \<open>xs[-20:]\<close> keeps the last 20 entries.\<close>

definition update_conversation_history :: "JARVISBrain \<Rightarrow> pystr \<Rightarrow> AIResponse \<Rightarrow> JARVISBrain" where
  "update_conversation_history b command response =
     (let h = conversation_history b
                @ [\<lparr> role = lit ''user'', content = command \<rparr>,
                   \<lparr> role = lit ''assistant'', content = response_text response \<rparr>]
      in b \<lparr> conversation_history := (if length h > 20 then drop (length h - 20) h else h) \<rparr>)"

text \<open>
  \<open>JARVISBrain.process_command\<close>. The result is the returned \<open>AIResponse\<close>, or the
  exception that leaves the method, together with the brain as the call left it.
\<close>

definition brain_process_command ::
  "env \<Rightarrow> JARVISBrain \<Rightarrow> pystr \<Rightarrow> (pystr \<times> pyval) list option \<Rightarrow> (exn + AIResponse) \<times> JARVISBrain" where
  "brain_process_command e b command ctx =
     (let b = b \<lparr> total_queries := total_queries b + 1 \<rparr>;
          i = analyze_intent (unicode e) command;
          sa = check_system_commands command i
      in case bind_exn (prepare_messages e b command ctx i) (get_ai_response e b) of
           Inl ex \<Rightarrow>
             (if is_Exception ex
              then Inr ((AIResponse_new
                           (get_text (language_manager b) (lit ''error_processing'') None) 0.0)
                        \<lparr> success := False \<rparr>)
              else Inl ex, b)
         | Inr ai_response \<Rightarrow>
             let response = process_ai_response ai_response sa ctx;
                 b = b \<lparr> response_times := response_times b @ [elapsed e] \<rparr>;
                 b = (if success response
                      then b \<lparr> successful_queries := successful_queries b + 1 \<rparr> else b);
                 b = b \<lparr> success_rate :=
                          (real (successful_queries b) / real (total_queries b)) * 100 \<rparr>;
                 b = update_conversation_history b command response
             in (Inr response, b))"

section \<open>The response object seen by the orchestrator\<close>

text \<open>
  \<open>AdvancedJARVIS.process_command\<close> uses its variable \<open>response\<close> as a dict
  (\<open>response.get(k)\<close>, \<open>response[k]\<close>, \<open>response[k] = v\<close>), while the brain hands it an
  instance of the dataclass. Both kinds of object are values of \<open>pyobj\<close>, and the three
  operations say what Python does on each.
\<close>

datatype pyobj = Dataclass AIResponse | Mapping "(pystr \<times> pyval) list"

definition key_error :: "pystr \<Rightarrow> exn" where
  "key_error k = Exception ([39] @ k @ [39])"

fun obj_get :: "pyobj \<Rightarrow> pystr \<Rightarrow> pyval \<Rightarrow> exn + pyval" where
  "obj_get (Dataclass r) k dflt = Inl (no_attribute ''AIResponse'' ''get'')"
| "obj_get (Mapping m) k dflt = Inr (case map_of m k of Some v \<Rightarrow> v | None \<Rightarrow> dflt)"

fun obj_getitem :: "pyobj \<Rightarrow> pystr \<Rightarrow> exn + pyval" where
  "obj_getitem (Dataclass r) k =
     Inl (Exception ([39] @ lit ''AIResponse'' @ [39] @ lit '' object is not subscriptable''))"
| "obj_getitem (Mapping m) k =
     (case map_of m k of Some v \<Rightarrow> Inr v | None \<Rightarrow> Inl (key_error k))"

fun obj_setitem :: "pyobj \<Rightarrow> pystr \<Rightarrow> pyval \<Rightarrow> exn + pyobj" where
  "obj_setitem (Dataclass r) k v =
     Inl (Exception ([39] @ lit ''AIResponse'' @ [39]
                     @ lit '' object does not support item assignment''))"
| "obj_setitem (Mapping m) k v = Inr (Mapping (dict_set m k v))"

section \<open>SystemController and HardwareController (core/)\<close>

record SystemController =
  system_state :: "(pystr \<times> pyval) list"

text \<open>\<open>get_system_state\<close> returns a copy of the dict.\<close>

definition get_system_state :: "SystemController \<Rightarrow> pyval" where
  "get_system_state sc = VDict (system_state sc)"

text \<open>
  \<open>SystemController.execute_command\<close>: the handler is chosen by the command, and an
  \<open>Exception\<close> of the handler becomes the returned string.
\<close>

definition SystemController_execute_command :: "env \<Rightarrow> pyval \<Rightarrow> pyval \<Rightarrow> exn + pystr" where
  "SystemController_execute_command e command params =
     try_except
       (let params = (if params = VNone then VDict [] else params)
        in if command = VStr (lit ''system_control'')
           then system_handler e (lit ''system_control'') params
           else if command = VStr (lit ''file_operation'')
           then system_handler e (lit ''file_operation'') params
           else if command = VStr (lit ''application_control'')
           then system_handler e (lit ''application_control'') params
           else if command = VStr (lit ''system_status'')
           then system_handler e (lit ''system_status'') params
           else Inr (lit ''Unknown system command: '' @ str_of e command))
       (\<lambda>ex. Inr (lit ''Error executing command: '' @ str_of_exn ex))"

definition HardwareController_execute_command :: "env \<Rightarrow> pyval \<Rightarrow> pyval \<Rightarrow> exn + pystr" where
  "HardwareController_execute_command e command params =
     try_except
       (if command = VStr (lit ''get_status'') then hardware_handler e (lit ''get_status'')
        else if command = VStr (lit ''get_temperatures'')
        then hardware_handler e (lit ''get_temperatures'')
        else if command = VStr (lit ''get_performance'')
        then hardware_handler e (lit ''get_performance'')
        else if command = VStr (lit ''optimize_performance'')
        then hardware_handler e (lit ''optimize_performance'')
        else Inr (lit ''Unknown hardware command: '' @ str_of e command))
       (\<lambda>ex. Inr (lit ''Error executing command: '' @ str_of_exn ex))"

section \<open>LearningEngine (core/learning_engine.py)\<close>

text \<open>The dict \<open>interaction\<close> of \<open>learn_from_interaction\<close>, one field per key.\<close>

record interaction =
  i_timestamp :: pystr
  i_command :: pystr
  i_response :: pyobj
  i_feedback :: "pystr option"
  i_context :: "(pystr \<times> pyval) list"

record LearningEngine =
  learning_enabled :: bool
  user_interactions :: "interaction list"
  command_frequency :: "(pystr \<times> nat) list"
  time_patterns :: "(pyval \<times> pystr list) list"
  context_patterns :: "(pystr \<times> pystr list) list"

definition LearningEngine_init :: LearningEngine where
  "LearningEngine_init =
     \<lparr> learning_enabled = True, user_interactions = [], command_frequency = [],
       time_patterns = [], context_patterns = [] \<rparr>"

text \<open>\<open>d[k].append(v)\<close> on a \<open>defaultdict(list)\<close> and \<open>c[k] += 1\<close> on a \<open>Counter\<close>.\<close>

fun dd_append :: "('k \<times> 'v list) list \<Rightarrow> 'k \<Rightarrow> 'v \<Rightarrow> ('k \<times> 'v list) list" where
  "dd_append [] k v = [(k, [v])]"
| "dd_append ((k', vs) # d) k v =
     (if k' = k then (k, vs @ [v]) # d else (k', vs) # dd_append d k v)"

fun counter_incr :: "('k \<times> nat) list \<Rightarrow> 'k \<Rightarrow> ('k \<times> nat) list" where
  "counter_incr [] k = [(k, 1)]"
| "counter_incr ((k', n) # d) k =
     (if k' = k then (k, n + 1) # d else (k', n) # counter_incr d k)"

fun is_str_int_float :: "pyval \<Rightarrow> bool" where
  "is_str_int_float (VStr s) = True"
| "is_str_int_float (VInt i) = True"
| "is_str_int_float (VBool b) = True"
| "is_str_int_float (VFloat x) = True"
| "is_str_int_float VNone = False"
| "is_str_int_float (VDateTime t) = False"
| "is_str_int_float (VList xs) = False"
| "is_str_int_float (VDict d) = False"

text \<open>
  \<open>_update_models\<close>. The inner \<^verbatim>\<open>try: ... except: pass\<close> around the time stamp swallows
  every exception; nothing else in the body raises, so the outer handler has no branch.
\<close>

definition update_models :: "env \<Rightarrow> LearningEngine \<Rightarrow> interaction \<Rightarrow> LearningEngine" where
  "update_models e le x =
     (let command = py_lower (unicode e) (i_command x);
          le = le \<lparr> command_frequency := counter_incr (command_frequency le) command \<rparr>;
          le = (if i_timestamp x \<noteq> []
                then (case fromisoformat e (i_timestamp x) of
                        Inl ex \<Rightarrow> le
                      | Inr (hour, day_of_week) \<Rightarrow>
                          le \<lparr> time_patterns :=
                                 dd_append (dd_append (time_patterns le) (VInt hour) command)
                                   (VStr (lit ''day_'' @ str_of e (VInt day_of_week))) command \<rparr>)
                else le)
      in fold (\<lambda>(key, v) le.
                 if is_str_int_float v
                 then le \<lparr> context_patterns :=
                             dd_append (context_patterns le) (key @ lit ''_'' @ str_of e v) command \<rparr>
                 else le)
              (i_context x) le)"

text \<open>
  \<open>_get_current_context\<close>: the learning engine has no attribute \<open>current_language\<close>, so
  \<open>getattr\<close> gives its default.
\<close>

definition get_current_context :: "env \<Rightarrow> LearningEngine \<Rightarrow> (pystr \<times> pyval) list" where
  "get_current_context e le =
     [(lit ''hour'', VInt (now_hour e)),
      (lit ''day_of_week'', VInt (now_weekday e)),
      (lit ''language'', VStr (lit ''english'')),
      (lit ''session_length'', VInt (int (length (user_interactions le))))]"

text \<open>\<open>learn_from_interaction\<close>: \<open>xs[-10000:]\<close> keeps the last 10000 entries.\<close>

definition learn_from_interaction ::
  "env \<Rightarrow> LearningEngine \<Rightarrow> pystr \<Rightarrow> pyobj \<Rightarrow> pystr option \<Rightarrow> LearningEngine" where
  "learn_from_interaction e le command response feedback =
     (if \<not> learning_enabled le then le
      else
        let x = \<lparr> i_timestamp = now_isoformat e, i_command = command, i_response = response,
                  i_feedback = feedback, i_context = get_current_context e le \<rparr>;
            le = le \<lparr> user_interactions := user_interactions le @ [x] \<rparr>;
            le = update_models e le x
        in if length (user_interactions le) > 10000
           then le \<lparr> user_interactions :=
                       drop (length (user_interactions le) - 10000) (user_interactions le) \<rparr>
           else le)"

text \<open>
  \<open>get_user_context\<close>: an \<open>Exception\<close> inside the dict display gives the empty dict.
\<close>

definition get_user_context :: "env \<Rightarrow> exn + pyval" where
  "get_user_context e = try_except (user_context_body e) (\<lambda>ex. Inr (VDict []))"

section \<open>AdvancedJARVIS (jarvis_main.py)\<close>

text \<open>
  The fields \<open>language_manager\<close> and \<open>current_language\<close> of the orchestrator are
  \<open>jarvis_language_manager\<close> and \<open>jarvis_current_language\<close> here; the brain has a language
  manager of its own.
\<close>

record AdvancedJARVIS =
  jarvis_language_manager :: LanguageManager
  brain :: JARVISBrain
  system_controller :: SystemController
  learning_engine :: LearningEngine
  jarvis_current_language :: pystr
  learning_mode :: bool
  commands_processed :: nat
  successful_operations :: nat

text \<open>\<open>_get_environment_context\<close>: the entries of the dict display, in their order.\<close>

definition get_environment_context :: "env \<Rightarrow> exn + pyval" where
  "get_environment_context e =
     bind_exn (get_system_load e) (\<lambda>load.
     bind_exn (network_get_status e) (\<lambda>status.
     bind_exn (get_active_applications e) (\<lambda>apps.
       Inr (VDict [(lit ''time_of_day'', VStr (strftime_HM e)),
                   (lit ''day_of_week'', VStr (strftime_A e)),
                   (lit ''system_load'', load),
                   (lit ''network_status'', status),
                   (lit ''active_applications'', apps)]))))"

text \<open>\<open>_analyze_context\<close>: no handler stands between a collaborator and the caller.\<close>

definition analyze_context ::
  "env \<Rightarrow> AdvancedJARVIS \<Rightarrow> pystr \<Rightarrow> exn + (pystr \<times> pyval) list" where
  "analyze_context e j command =
     bind_exn (get_user_context e) (\<lambda>history.
     bind_exn (get_environment_context e) (\<lambda>environment.
       Inr [(lit ''timestamp'', now e),
            (lit ''language'', VStr (jarvis_current_language j)),
            (lit ''system_state'', get_system_state (system_controller j)),
            (lit ''user_history'', history),
            (lit ''environment'', environment)]))"

text \<open>
  The calls that \<open>process_command\<close> makes on the executors and on the learning engine are
  recorded beside its result.
\<close>

datatype call =
    SystemExecute pyval pyval
  | HardwareExecute pyval pyval
  | LearnFromInteraction pystr pyobj

record outcome =
  returned :: "exn + pyobj"
  state :: AdvancedJARVIS
  calls :: "call list"

text \<open>The two dispatch blocks of \<open>process_command\<close>.\<close>

definition dispatch_system :: "env \<Rightarrow> pyobj \<Rightarrow> (exn + pyobj) \<times> call list" where
  "dispatch_system e response =
     (case obj_get response (lit ''requires_system_action'') VNone of
        Inl ex \<Rightarrow> (Inl ex, [])
      | Inr flag \<Rightarrow>
          if truthy flag
          then (case obj_getitem response (lit ''system_command'') of
                  Inl ex \<Rightarrow> (Inl ex, [])
                | Inr cmd \<Rightarrow>
                    (case obj_get response (lit ''parameters'') (VDict []) of
                       Inl ex \<Rightarrow> (Inl ex, [])
                     | Inr params \<Rightarrow>
                         (bind_exn (SystemController_execute_command e cmd params)
                            (\<lambda>system_result.
                               obj_setitem response (lit ''system_result'') (VStr system_result)),
                          [SystemExecute cmd params])))
          else (Inr response, []))"

definition dispatch_hardware :: "env \<Rightarrow> pyobj \<Rightarrow> (exn + pyobj) \<times> call list" where
  "dispatch_hardware e response =
     (case obj_get response (lit ''requires_hardware_action'') VNone of
        Inl ex \<Rightarrow> (Inl ex, [])
      | Inr flag \<Rightarrow>
          if truthy flag
          then (case obj_getitem response (lit ''hardware_command'') of
                  Inl ex \<Rightarrow> (Inl ex, [])
                | Inr cmd \<Rightarrow>
                    (case obj_get response (lit ''parameters'') (VDict []) of
                       Inl ex \<Rightarrow> (Inl ex, [])
                     | Inr params \<Rightarrow>
                         (bind_exn (HardwareController_execute_command e cmd params)
                            (\<lambda>hardware_result.
                               obj_setitem response (lit ''hardware_result'')
                                 (VStr hardware_result)),
                          [HardwareExecute cmd params])))
          else (Inr response, []))"

text \<open>
  The handler of \<open>process_command\<close>: an \<open>Exception\<close> becomes the error dict, anything else
  leaves the method.
\<close>

definition error_response :: "AdvancedJARVIS \<Rightarrow> exn \<Rightarrow> pyobj" where
  "error_response j ex =
     Mapping [(lit ''text'',
                 VStr (get_text (jarvis_language_manager j) (lit ''error_processing'') None)),
              (lit ''success'', VBool False),
              (lit ''error'', VStr (str_of_exn ex))]"

definition on_exception :: "AdvancedJARVIS \<Rightarrow> call list \<Rightarrow> exn \<Rightarrow> outcome" where
  "on_exception j cs ex =
     \<lparr> returned = (if is_Exception ex then Inr (error_response j ex) else Inl ex),
       state = j, calls = cs \<rparr>"

text \<open>What \<open>process_command\<close> does with the object the brain returned.\<close>

definition dispatch_and_learn :: "env \<Rightarrow> AdvancedJARVIS \<Rightarrow> pystr \<Rightarrow> pyobj \<Rightarrow> outcome" where
  "dispatch_and_learn e j command response =
     (case dispatch_system e response of
        (Inl ex, cs1) \<Rightarrow> on_exception j cs1 ex
      | (Inr response, cs1) \<Rightarrow>
          (case dispatch_hardware e response of
             (Inl ex, cs2) \<Rightarrow> on_exception j (cs1 @ cs2) ex
           | (Inr response, cs2) \<Rightarrow>
               let j = (if learning_mode j
                        then j \<lparr> learning_engine :=
                                   learn_from_interaction e (learning_engine j) command response
                                     None \<rparr>
                        else j);
                   cs3 = (if learning_mode j then [LearnFromInteraction command response]
                          else []);
                   j = j \<lparr> successful_operations := successful_operations j + 1 \<rparr>
               in \<lparr> returned = Inr response, state = j, calls = cs1 @ cs2 @ cs3 \<rparr>))"

text \<open>
  \<open>AdvancedJARVIS.process_command\<close>. \<open>detect_and_switch\<close> is its opening: the counter,
  the language detection and the switch of the language.
\<close>

definition detect_and_switch :: "env \<Rightarrow> AdvancedJARVIS \<Rightarrow> pystr \<Rightarrow> AdvancedJARVIS" where
  "detect_and_switch e j command =
     (let j = j \<lparr> commands_processed := commands_processed j + 1 \<rparr>;
          detected_lang = detect_language (unicode e) (jarvis_language_manager j) command
      in if detected_lang \<noteq> jarvis_current_language j
         then j \<lparr> jarvis_current_language := detected_lang,
                   jarvis_language_manager :=
                     set_language (unicode e) (jarvis_language_manager j) detected_lang \<rparr>
         else j)"

definition process_command :: "env \<Rightarrow> AdvancedJARVIS \<Rightarrow> pystr \<Rightarrow> outcome" where
  "process_command e j command =
     (let j = detect_and_switch e j command
      in case analyze_context e j command of
           Inl ex \<Rightarrow> on_exception j [] ex
         | Inr ctx \<Rightarrow>
             (case brain_process_command e (brain j) command (Some ctx) of
                (Inl ex, b) \<Rightarrow> on_exception (j \<lparr> brain := b \<rparr>) [] ex
              | (Inr r, b) \<Rightarrow> dispatch_and_learn e (j \<lparr> brain := b \<rparr>) command (Dataclass r)))"

section \<open>Concrete surroundings for the examples\<close>

text \<open>
  A Unicode database in which no code point beyond ASCII has a case or is alphanumeric. The
  examples below use ASCII text only, where the database is not consulted.
\<close>

definition ascii_only :: ucd where
  "ascii_only = \<lparr> ulower = (\<lambda>before c after. [c]), ualnum = (\<lambda>c. False), uci = (\<lambda>l c. False) \<rparr>"

text \<open>
  An environment for the source as it stands: the two methods that \<open>SystemController\<close>
  lacks raise \<open>AttributeError\<close>. The text-generation service is the parameter.
\<close>

definition env_of :: "(message list \<Rightarrow> exn + http_response) \<Rightarrow> env" where
  "env_of service =
     \<lparr> unicode = ascii_only,
       str_of = (\<lambda>v. case v of VStr s \<Rightarrow> s | _ \<Rightarrow> lit ''?''),
       fmt_2f = (\<lambda>x. lit ''?''),
       now = VDateTime 0,
       now_isoformat = lit ''2025-01-01T09:00:00'',
       strftime_HM = lit ''09:00'',
       strftime_A = lit ''Wednesday'',
       elapsed = 1,
       requests_post = service,
       get_system_load = Inl (missing_method ''get_system_load''),
       get_active_applications = Inl (missing_method ''get_active_applications''),
       network_get_status = Inr (VDict []),
       user_context_body = Inr (VDict []),
       now_hour = 9,
       now_weekday = 2,
       fromisoformat = (\<lambda>s. Inr (9, 2)),
       system_handler = (\<lambda>name params. Inl (Exception (lit ''Access is denied''))),
       hardware_handler = (\<lambda>name. Inr (lit ''Hardware Status Report'')) \<rparr>"

text \<open>The same with a system controller that has the two methods.\<close>

definition env_repaired :: "(message list \<Rightarrow> exn + http_response) \<Rightarrow> env" where
  "env_repaired service =
     (env_of service) \<lparr> get_system_load := Inr (VFloat 0),
                        get_active_applications := Inr (VList []) \<rparr>"

definition service_ok :: "message list \<Rightarrow> exn + http_response" where
  "service_ok messages = Inr \<lparr> status_code = 200, body_content = Inr (lit ''Certainly, Sir.'') \<rparr>"

definition service_unavailable :: "message list \<Rightarrow> exn + http_response" where
  "service_unavailable messages = Inr \<lparr> status_code = 503, body_content = Inr [] \<rparr>"

definition service_interrupted :: "message list \<Rightarrow> exn + http_response" where
  "service_interrupted messages = Inl KeyboardInterrupt"

definition service_timeout :: "message list \<Rightarrow> exn + http_response" where
  "service_timeout messages = Inl (Exception (lit ''Read timed out''))"

text \<open>The user interrupts (Ctrl-C) while \<open>get_user_context\<close> runs.\<close>

definition env_interrupted :: env where
  "env_interrupted = (env_of service_ok) \<lparr> user_context_body := Inl KeyboardInterrupt \<rparr>"

text \<open>The network manager fails; the dict display of \<open>get_user_context\<close> fails.\<close>

definition env_network_down :: env where
  "env_network_down =
     (env_repaired service_ok) \<lparr> network_get_status := Inl (Exception (lit ''unreachable'')) \<rparr>"

definition env_history_failing :: env where
  "env_history_failing =
     (env_repaired service_ok) \<lparr> user_context_body := Inl (Exception (lit ''bad data'')) \<rparr>"




text \<open>Five exchanges of history.\<close>

definition ten_messages :: "message list" where
  "ten_messages =
     concat (map (\<lambda>n. [\<lparr> role = lit ''user'', content = [n] \<rparr>,
                          \<lparr> role = lit ''assistant'', content = [n, n] \<rparr>])
                 [49, 50, 51, 52, 53])"

text \<open>The brain and the orchestrator after \<open>__init__\<close> and \<open>initialize_system\<close>.\<close>

definition brain_ready :: JARVISBrain where
  "brain_ready = JARVISBrain_init \<lparr> system_prompt := Some (lit ''You are JARVIS'') \<rparr>"

text \<open>A brain whose history is at its cap, and a learning engine whose log is at its cap.\<close>

definition brain_full :: JARVISBrain where
  "brain_full = brain_ready \<lparr> conversation_history := ten_messages @ ten_messages \<rparr>"

definition sample_interaction :: interaction where
  "sample_interaction =
     \<lparr> i_timestamp = lit ''2025-01-01T08:00:00'', i_command = lit ''status'',
       i_response = Mapping [], i_feedback = None, i_context = [] \<rparr>"

definition learning_full :: LearningEngine where
  "learning_full =
     LearningEngine_init \<lparr> user_interactions := replicate 10000 sample_interaction \<rparr>"

definition jarvis_ready :: AdvancedJARVIS where
  "jarvis_ready =
     \<lparr> jarvis_language_manager = LanguageManager_init,
       brain = brain_ready,
       system_controller = \<lparr> system_state = [(lit ''cpu_percent'', VFloat 0)] \<rparr>,
       learning_engine = LearningEngine_init,
       jarvis_current_language = lit ''english'',
       learning_mode = True,
       commands_processed = 0,
       successful_operations = 0 \<rparr>"

section \<open>The specification's wording\<close>

text \<open>
  The intent classifier as the specification describes it: a fixed ordered list of
  (category, keyword set, confidence), of which the first entry with a keyword in the
  lower-cased command wins; without a match the category is \<open>general\<close> with confidence 0.5.
\<close>

definition spec_intent_rules :: "(pystr \<times> pystr list \<times> real) list" where
  "spec_intent_rules =
     [(lit ''system_control'', [lit ''shutdown'', lit ''restart'', lit ''sleep'', lit ''lock''], 0.9),
      (lit ''file_operation'', [lit ''open'', lit ''create'', lit ''delete'', lit ''file''], 0.8),
      (lit ''application_control'', [lit ''launch'', lit ''start'', lit ''close'', lit ''app''], 0.8),
      (lit ''information_request'',
         [lit ''what'', lit ''how'', lit ''when'', lit ''where'', lit ''why''], 0.7),
      (lit ''system_status'', [lit ''status'', lit ''health'', lit ''performance''], 0.9)]"

definition spec_classify :: "ucd \<Rightarrow> pystr \<Rightarrow> pystr \<times> real" where
  "spec_classify u command =
     (case find (\<lambda>(category, keywords, conf). any_in keywords (py_lower u command))
             spec_intent_rules of
        Some (category, keywords, conf) \<Rightarrow> (category, conf)
      | None \<Rightarrow> (lit ''general'', 0.5))"

text \<open>
  A command contains a word case-insensitively when the word is a substring of the command
  with its ASCII capitals lowered.
\<close>

definition contains_ci :: "pystr \<Rightarrow> pystr \<Rightarrow> bool" where
  "contains_ci w command = sublist w (map ascii_lower command)"

text \<open>
  The message list as the specification describes it: the preamble, the last five
  exchanges (ten messages) of the history, the context summary, the command.
\<close>

definition spec_messages :: "pystr \<Rightarrow> message list \<Rightarrow> pystr \<Rightarrow> pystr \<Rightarrow> message list" where
  "spec_messages prompt history info command =
     [\<lparr> role = lit ''system'', content = prompt \<rparr>]
     @ drop (length history - 10) history
     @ [\<lparr> role = lit ''system'', content = info \<rparr>]
     @ [\<lparr> role = lit ''user'', content = command \<rparr>]"

section \<open>Lower-casing\<close>

lemma ascii_lower_lt: "ascii_lower c < 128 \<Longrightarrow> c < 128"
  by (auto simp: ascii_lower_def is_ascii_upper_def split: if_splits)


lemma lower_from_ascii_prefix:
  "\<forall>c\<in>set w. c < 128 \<Longrightarrow>
     lower_from u b (w @ post) = map ascii_lower w @ lower_from u (b @ w) post"
  by (induction w arbitrary: b) (simp_all add: lower_char_def)

lemma lower_from_ascii_infix:
  "\<forall>c\<in>set m. c < 128 \<Longrightarrow> \<exists>X Y. lower_from u b (p @ m @ q) = X @ map ascii_lower m @ Y"
proof (induction p arbitrary: b)
  case Nil
  then show ?case by (simp add: lower_from_ascii_prefix) blast
next
  case (Cons c p)
  from Cons.IH [OF Cons.prems, of "b @ [c]"]
  obtain X Y where "lower_from u (b @ [c]) (p @ m @ q) = X @ map ascii_lower m @ Y" by blast
  then have "lower_from u b ((c # p) @ m @ q)
               = (lower_char u b c (p @ m @ q) @ X) @ map ascii_lower m @ Y"
    by simp
  then show ?case by blast
qed

lemma map_append_split:
  "map f xs = ys @ zs \<Longrightarrow> \<exists>us vs. xs = us @ vs \<and> map f us = ys \<and> map f vs = zs"
  by (auto simp: map_eq_append_conv)

text \<open>
  An ASCII word that the command contains case-insensitively is a substring of the
  lower-cased command, whatever the Unicode data say about the rest of the command.
\<close>

lemma contains_ci_lower:
  assumes "contains_ci w command" "\<forall>c\<in>set w. c < 128"
  shows "py_in w (py_lower u command)"
proof -
  from assms(1) obtain pre post where "map ascii_lower command = pre @ w @ post"
    by (auto simp: contains_ci_def sublist_def)
  from map_append_split [OF this]
  obtain p r where c1: "command = p @ r" and r: "map ascii_lower r = w @ post"
    by blast
  from map_append_split [OF r]
  obtain m q where c2: "r = m @ q" and m: "map ascii_lower m = w"
    by blast
  have "\<forall>c\<in>set m. c < 128"
  proof
    fix c assume "c \<in> set m"
    then have "ascii_lower c \<in> set w" using m by auto
    then show "c < 128" using assms(2) ascii_lower_lt by blast
  qed
  from lower_from_ascii_infix [OF this, of u "[]" p q]
  obtain X Y where "py_lower u command = X @ w @ Y"
    unfolding py_lower_def c1 c2 using m by auto
  then show ?thesis by (auto simp: py_in_def sublist_def)
qed

section \<open>The intent classifier\<close>

lemma shutdown_ascii: "\<forall>c\<in>set (lit ''shutdown''). c < 128"
  by (simp add: lit_def)

lemma shutdown_first:
  "py_in (lit ''shutdown'') (py_lower u command) \<Longrightarrow>
     intent_type (analyze_intent u command) = lit ''system_control'' \<and>
     intent_confidence (analyze_intent u command) = 0.9"
  by (simp add: analyze_intent_def Let_def any_in_def)

lemma analyze_intent_spec:
  "(intent_type (analyze_intent u command), intent_confidence (analyze_intent u command))
     = spec_classify u command"
  by (simp add: analyze_intent_def spec_classify_def spec_intent_rules_def Let_def)

text \<open>
  Claim C5. A command that contains the word shutdown, in any mix of upper and lower case,
  is classified as \<open>system_control\<close> with confidence 0.9, whatever other keywords it
  contains; and for every command the classifier of the source returns what the first
  matching entry of the ordered list
  system_control, file_operation, application_control, information_request, system_status
  prescribes (\<open>general\<close> with 0.5 when no entry matches).
\<close>

theorem analyze_intent_first_match:
  "(contains_ci (lit ''shutdown'') command \<longrightarrow>
      intent_type (analyze_intent u command) = lit ''system_control'' \<and>
      intent_confidence (analyze_intent u command) = 0.9)
   \<and> (intent_type (analyze_intent u command), intent_confidence (analyze_intent u command))
       = spec_classify u command"
  using contains_ci_lower [OF _ shutdown_ascii] shutdown_first analyze_intent_spec
  by blast

text \<open>
  The witness: a command with the information-request keyword \<open>what\<close> and the word
  shutdown in capitals.
\<close>

theorem analyze_intent_first_match_witness:
  "contains_ci (lit ''shutdown'') (lit ''What if I SHUTDOWN now'')
   \<and> py_in (lit ''what'') (py_lower ascii_only (lit ''What if I SHUTDOWN now''))
   \<and> intent_type (analyze_intent ascii_only (lit ''What if I SHUTDOWN now''))
       = lit ''system_control''
   \<and> intent_confidence (analyze_intent ascii_only (lit ''What if I SHUTDOWN now'')) = 0.9"
proof -
  have h: "contains_ci (lit ''shutdown'') (lit ''What if I SHUTDOWN now'')"
    by code_simp
  have w: "py_in (lit ''what'') (py_lower ascii_only (lit ''What if I SHUTDOWN now''))"
    by code_simp
  from analyze_intent_first_match [of "lit ''What if I SHUTDOWN now''" ascii_only] h w
  show ?thesis by blast
qed

section \<open>The language detector\<close>























section \<open>The bounded histories\<close>

lemma update_history_bound:
  "length (conversation_history (update_conversation_history b command response)) \<le> 20"
  by (simp add: update_conversation_history_def Let_def)

lemma update_models_interactions:
  "user_interactions (update_models e le x) = user_interactions le"
proof -
  have f: "\<And>cmd le. user_interactions (fold (\<lambda>(key, v) le.
                 if is_str_int_float v
                 then le \<lparr> context_patterns :=
                             dd_append (context_patterns le) (key @ lit ''_'' @ str_of e v) cmd \<rparr>
                 else le) xs le) = user_interactions le" for xs
    by (induction xs) (auto split: prod.splits)
  show ?thesis
    by (simp add: update_models_def Let_def f split: sum.splits prod.splits)
qed

lemma learn_bound_enabled:
  "learning_enabled le \<Longrightarrow>
     length (user_interactions (learn_from_interaction e le command response fb)) \<le> 10000"
  by (simp add: learn_from_interaction_def Let_def update_models_interactions)

lemma learn_bound_preserved:
  "length (user_interactions le) \<le> 10000 \<Longrightarrow>
     length (user_interactions (learn_from_interaction e le command response fb)) \<le> 10000"
  by (simp add: learn_from_interaction_def Let_def update_models_interactions)

lemma fold_history_bound:
  "length (conversation_history b) \<le> 20 \<Longrightarrow>
   length (conversation_history
             (fold (\<lambda>(c, r) b. update_conversation_history b c r) ops b)) \<le> 20"
  by (induction ops arbitrary: b) (auto simp: update_history_bound)

lemma brain_history_bound:
  "length (conversation_history b) \<le> 20 \<Longrightarrow>
   length (conversation_history (snd (brain_process_command e b command ctx))) \<le> 20"
  by (auto simp: brain_process_command_def Let_def update_history_bound split: sum.splits)

lemma fold_learn_bound:
  "length (user_interactions le) \<le> 10000 \<Longrightarrow>
   length (user_interactions
             (fold (\<lambda>(c, r) le. learn_from_interaction e le c r None) ops le)) \<le> 10000"
  by (induction ops arbitrary: le) (auto simp: learn_bound_preserved)

lemma update_history_eq:
  "conversation_history (update_conversation_history b command response) =
     (let h = conversation_history b @ [\<lparr> role = lit ''user'', content = command \<rparr>,
                 \<lparr> role = lit ''assistant'', content = response_text response \<rparr>]
      in drop (length h - 20) h)"
  by (simp add: update_conversation_history_def Let_def)

lemma learn_eq:
  "learning_enabled le \<Longrightarrow>
   user_interactions (learn_from_interaction e le command obj fb) =
     (let xs = user_interactions le @ [\<lparr> i_timestamp = now_isoformat e, i_command = command,
                 i_response = obj, i_feedback = fb, i_context = get_current_context e le \<rparr>]
      in drop (length xs - 10000) xs)"
  by (simp add: learn_from_interaction_def Let_def update_models_interactions)

lemma learn_disabled:
  "\<not> learning_enabled le \<Longrightarrow> learn_from_interaction e le command obj fb = le"
  by (simp add: learn_from_interaction_def)

lemma update_models_enabled:
  "learning_enabled (update_models e le x) = learning_enabled le"
proof -
  have f: "\<And>cmd le. learning_enabled (fold (\<lambda>(key, v) le.
                 if is_str_int_float v
                 then le \<lparr> context_patterns :=
                             dd_append (context_patterns le) (key @ lit ''_'' @ str_of e v) cmd \<rparr>
                 else le) xs le) = learning_enabled le" for xs
    by (induction xs) (auto split: prod.splits)
  show ?thesis
    by (simp add: update_models_def Let_def f split: sum.splits prod.splits)
qed

lemma learn_enabled_kept:
  "learning_enabled (learn_from_interaction e le command obj fb) = learning_enabled le"
  by (simp add: learn_from_interaction_def Let_def update_models_enabled)

lemma learn_length:
  "learning_enabled le \<Longrightarrow>
   length (user_interactions (learn_from_interaction e le command obj fb))
     = min 10000 (length (user_interactions le) + 1)"
  by (simp add: learn_eq Let_def)

lemma fold_learn_length:
  "learning_enabled le \<Longrightarrow> length (user_interactions le) \<le> 10000 \<Longrightarrow>
   length (user_interactions
             (fold (\<lambda>(c, r) le. learn_from_interaction e le c r None) lops le))
     = min 10000 (length (user_interactions le) + length lops)"
proof (induction lops arbitrary: le)
  case Nil
  then show ?case by simp
next
  case (Cons p lops)
  obtain c r where p: "p = (c, r)" by (cases p)
  let ?le = "learn_from_interaction e le c r None"
  have e: "learning_enabled ?le"
    by (simp add: learn_enabled_kept Cons.prems)
  have l: "length (user_interactions ?le) = min 10000 (length (user_interactions le) + 1)"
    by (rule learn_length) (rule Cons.prems)
  then have b: "length (user_interactions ?le) \<le> 10000"
    by simp
  show ?case
    using Cons.IH [OF e b] l by (simp add: p)
qed

lemma drop_last_append:
  "drop (length (drop (length A - k) A @ B) - k) (drop (length A - k) A @ B)
     = drop (length (A @ B) - k) (A @ B)"
  by (cases "length A \<le> k") (auto simp: add.commute)

lemma fold_history_eq:
  "length (conversation_history b) \<le> 20 \<Longrightarrow>
   conversation_history (fold (\<lambda>(c, r) b. update_conversation_history b c r) ops b) =
     (let h = conversation_history b
                @ concat (map (\<lambda>(c, r). [\<lparr> role = lit ''user'', content = c \<rparr>,
                                           \<lparr> role = lit ''assistant'',
                                              content = response_text r \<rparr>]) ops)
      in drop (length h - 20) h)"
proof (induction ops arbitrary: b)
  case Nil
  then show ?case by simp
next
  case (Cons p ops)
  obtain c r where p: "p = (c, r)" by (cases p)
  let ?b = "update_conversation_history b c r"
  let ?A = "conversation_history b @ [\<lparr> role = lit ''user'', content = c \<rparr>,
                 \<lparr> role = lit ''assistant'', content = response_text r \<rparr>]"
  let ?B = "concat (map (\<lambda>(c, r). [\<lparr> role = lit ''user'', content = c \<rparr>,
                                           \<lparr> role = lit ''assistant'',
                                              content = response_text r \<rparr>]) ops)"
  have h: "conversation_history ?b = drop (length ?A - 20) ?A"
    by (simp add: update_history_eq Let_def)
  have "conversation_history (fold (\<lambda>(c, r) b. update_conversation_history b c r) ops ?b)
          = drop (length (conversation_history ?b @ ?B) - 20) (conversation_history ?b @ ?B)"
    using Cons.IH [OF update_history_bound, of b c r] by (simp add: Let_def)
  also have "\<dots> = drop (length (?A @ ?B) - 20) (?A @ ?B)"
    unfolding h by (rule drop_last_append)
  finally show ?case
    by (simp add: p Let_def)
qed

text \<open>
  Claim C6. Every update of the conversation history appends the user entry and the
  assistant entry and keeps the last 20 entries of the result; every
  \<open>learn_from_interaction\<close> of an enabled learning engine appends one interaction and keeps
  the last 10000, and one of a disabled engine changes nothing. So every update leaves at
  most 20 entries resp. at most 10000 interactions, whatever the length was before, and
  from histories within the bounds (the empty ones of the start among them) any number of
  record operations stays within both bounds, as does a call of the brain's
  \<open>process_command\<close>, whether it records or fails. After any number of updates the
  conversation history is the last 20 entries of everything recorded, and the log of an
  enabled engine has grown by one interaction per operation, up to 10000.
\<close>

theorem histories_bounded:
  "length (conversation_history (update_conversation_history b command response)) \<le> 20
   \<and> (learning_enabled le \<longrightarrow>
        length (user_interactions (learn_from_interaction e le command obj fb)) \<le> 10000)
   \<and> (length (user_interactions le) \<le> 10000 \<longrightarrow>
        length (user_interactions (learn_from_interaction e le command obj fb)) \<le> 10000)
   \<and> (length (conversation_history b) \<le> 20 \<longrightarrow>
        length (conversation_history
                  (fold (\<lambda>(c, r) b. update_conversation_history b c r) ops b)) \<le> 20)
   \<and> (length (user_interactions le) \<le> 10000 \<longrightarrow>
        length (user_interactions
                  (fold (\<lambda>(c, r) le. learn_from_interaction e le c r None) lops le)) \<le> 10000)
   \<and> (length (conversation_history b) \<le> 20 \<longrightarrow>
        length (conversation_history (snd (brain_process_command e b command ctx))) \<le> 20)
   \<and> conversation_history (update_conversation_history b command response) =
        (let h = conversation_history b
                   @ [\<lparr> role = lit ''user'', content = command \<rparr>,
                      \<lparr> role = lit ''assistant'', content = response_text response \<rparr>]
         in drop (length h - 20) h)
   \<and> (learning_enabled le \<longrightarrow>
        user_interactions (learn_from_interaction e le command obj fb) =
          (let xs = user_interactions le
                      @ [\<lparr> i_timestamp = now_isoformat e, i_command = command,
                           i_response = obj, i_feedback = fb,
                           i_context = get_current_context e le \<rparr>]
           in drop (length xs - 10000) xs))
   \<and> (\<not> learning_enabled le \<longrightarrow> learn_from_interaction e le command obj fb = le)
   \<and> (length (conversation_history b) \<le> 20 \<longrightarrow>
        conversation_history (fold (\<lambda>(c, r) b. update_conversation_history b c r) ops b) =
          (let h = conversation_history b
                     @ concat (map (\<lambda>(c, r). [\<lparr> role = lit ''user'', content = c \<rparr>,
                                                \<lparr> role = lit ''assistant'',
                                                   content = response_text r \<rparr>]) ops)
           in drop (length h - 20) h))
   \<and> (learning_enabled le \<and> length (user_interactions le) \<le> 10000 \<longrightarrow>
        length (user_interactions
                  (fold (\<lambda>(c, r) le. learn_from_interaction e le c r None) lops le))
          = min 10000 (length (user_interactions le) + length lops))"
  apply (intro conjI impI)
            apply (rule update_history_bound)
           apply (erule learn_bound_enabled)
          apply (erule learn_bound_preserved)
         apply (erule fold_history_bound)
        apply (erule fold_learn_bound)
       apply (erule brain_history_bound)
      apply (rule update_history_eq)
     apply (erule learn_eq)
    apply (erule learn_disabled)
   apply (erule fold_history_eq)
  apply (erule conjE, erule (1) fold_learn_length)
  done

text \<open>
  The witness: two operations on the brain and the learning engine of the start, and two
  on a brain whose history holds 20 entries and an engine whose log holds 10000
  interactions, where the oldest entries are dropped.
\<close>

theorem histories_bounded_witness:
  "learning_enabled LearningEngine_init
   \<and> length (user_interactions LearningEngine_init) \<le> 10000
   \<and> length (conversation_history JARVISBrain_init) \<le> 20
   \<and> length (user_interactions
        (learn_from_interaction (env_of service_ok) LearningEngine_init (lit ''lock'')
           (Mapping []) None)) \<le> 10000
   \<and> length (conversation_history
        (fold (\<lambda>(c, r) b. update_conversation_history b c r)
           [(lit ''lock'', AIResponse_new (lit ''Certainly'') 0.8),
            (lit ''status'', AIResponse_new (lit ''Certainly'') 0.8)] JARVISBrain_init)) \<le> 20
   \<and> length (user_interactions
        (fold (\<lambda>(c, r) le. learn_from_interaction (env_of service_ok) le c r None)
           [(lit ''lock'', Mapping []), (lit ''status'', Mapping [])]
           LearningEngine_init)) \<le> 10000
   \<and> length (user_interactions
        (fold (\<lambda>(c, r) le. learn_from_interaction (env_of service_ok) le c r None)
           [(lit ''lock'', Mapping []), (lit ''status'', Mapping [])]
           LearningEngine_init)) = 2
   \<and> learning_enabled learning_full
   \<and> length (user_interactions learning_full) = 10000
   \<and> length (conversation_history brain_full) = 20
   \<and> conversation_history
        (update_conversation_history brain_full (lit ''lock'')
           (AIResponse_new (lit ''Certainly'') 0.8))
        = drop 2 (ten_messages @ ten_messages)
          @ [\<lparr> role = lit ''user'', content = lit ''lock'' \<rparr>,
             \<lparr> role = lit ''assistant'', content = lit ''Certainly'' \<rparr>]
   \<and> user_interactions
        (learn_from_interaction (env_of service_ok) learning_full (lit ''lock'') (Mapping [])
           None)
        = replicate 9999 sample_interaction
          @ [\<lparr> i_timestamp = now_isoformat (env_of service_ok), i_command = lit ''lock'',
               i_response = Mapping [], i_feedback = None,
               i_context = get_current_context (env_of service_ok) learning_full \<rparr>]
   \<and> conversation_history
        (fold (\<lambda>(c, r) b. update_conversation_history b c r)
           [(lit ''lock'', AIResponse_new (lit ''Certainly'') 0.8),
            (lit ''status'', AIResponse_new (lit ''Certainly'') 0.8)] brain_full)
        = drop 4 (ten_messages @ ten_messages)
          @ [\<lparr> role = lit ''user'', content = lit ''lock'' \<rparr>,
             \<lparr> role = lit ''assistant'', content = lit ''Certainly'' \<rparr>,
             \<lparr> role = lit ''user'', content = lit ''status'' \<rparr>,
             \<lparr> role = lit ''assistant'', content = lit ''Certainly'' \<rparr>]
   \<and> length (user_interactions
        (fold (\<lambda>(c, r) le. learn_from_interaction (env_of service_ok) le c r None)
           [(lit ''lock'', Mapping []), (lit ''status'', Mapping [])] learning_full)) = 10000"
proof -
  have h1: "learning_enabled LearningEngine_init"
    by (simp add: LearningEngine_init_def)
  have h2: "length (user_interactions LearningEngine_init) \<le> 10000"
    by (simp add: LearningEngine_init_def)
  have h2': "length (user_interactions LearningEngine_init) = 0"
    by (simp add: LearningEngine_init_def)
  have h3: "length (conversation_history JARVISBrain_init) \<le> 20"
    by (simp add: JARVISBrain_init_def)
  have g1: "learning_enabled learning_full"
    by (simp add: learning_full_def LearningEngine_init_def)
  have g2: "length (user_interactions learning_full) = 10000"
    by (simp add: learning_full_def)
  have g3: "length (conversation_history brain_full) = 20"
    by (simp add: brain_full_def ten_messages_def)
  note a = histories_bounded
         [of JARVISBrain_init "lit ''lock''" "AIResponse_new (lit ''Certainly'') 0.8"
             LearningEngine_init "env_of service_ok" "Mapping []" None
             "[(lit ''lock'', AIResponse_new (lit ''Certainly'') 0.8),
               (lit ''status'', AIResponse_new (lit ''Certainly'') 0.8)]"
             "[(lit ''lock'', Mapping []), (lit ''status'', Mapping [])]"]
  note b = histories_bounded
         [of brain_full "lit ''lock''" "AIResponse_new (lit ''Certainly'') 0.8"
             learning_full "env_of service_ok" "Mapping []" None
             "[(lit ''lock'', AIResponse_new (lit ''Certainly'') 0.8),
               (lit ''status'', AIResponse_new (lit ''Certainly'') 0.8)]"
             "[(lit ''lock'', Mapping []), (lit ''status'', Mapping [])]"]
  have a1: "length (user_interactions
        (learn_from_interaction (env_of service_ok) LearningEngine_init (lit ''lock'')
           (Mapping []) None)) \<le> 10000"
    using a h1 by blast
  have a2: "length (conversation_history
        (fold (\<lambda>(c, r) b. update_conversation_history b c r)
           [(lit ''lock'', AIResponse_new (lit ''Certainly'') 0.8),
            (lit ''status'', AIResponse_new (lit ''Certainly'') 0.8)] JARVISBrain_init)) \<le> 20"
    using a h3 by blast
  have a3: "length (user_interactions
        (fold (\<lambda>(c, r) le. learn_from_interaction (env_of service_ok) le c r None)
           [(lit ''lock'', Mapping []), (lit ''status'', Mapping [])]
           LearningEngine_init)) \<le> 10000"
    using a h2 by blast
  have "length (user_interactions
        (fold (\<lambda>(c, r) le. learn_from_interaction (env_of service_ok) le c r None)
           [(lit ''lock'', Mapping []), (lit ''status'', Mapping [])]
           LearningEngine_init))
         = min 10000 (length (user_interactions LearningEngine_init)
                      + length [(lit ''lock'', Mapping []), (lit ''status'', Mapping [])])"
    using a h1 h2 by blast
  then have a4: "length (user_interactions
        (fold (\<lambda>(c, r) le. learn_from_interaction (env_of service_ok) le c r None)
           [(lit ''lock'', Mapping []), (lit ''status'', Mapping [])]
           LearningEngine_init)) = 2"
    by (simp add: h2')
  have "conversation_history
        (update_conversation_history brain_full (lit ''lock'')
           (AIResponse_new (lit ''Certainly'') 0.8))
        = (let h = conversation_history brain_full
                   @ [\<lparr> role = lit ''user'', content = lit ''lock'' \<rparr>,
                      \<lparr> role = lit ''assistant'',
                         content = response_text (AIResponse_new (lit ''Certainly'') 0.8) \<rparr>]
           in drop (length h - 20) h)"
    using b by blast
  then have b1: "conversation_history
        (update_conversation_history brain_full (lit ''lock'')
           (AIResponse_new (lit ''Certainly'') 0.8))
        = drop 2 (ten_messages @ ten_messages)
          @ [\<lparr> role = lit ''user'', content = lit ''lock'' \<rparr>,
             \<lparr> role = lit ''assistant'', content = lit ''Certainly'' \<rparr>]"
    by (simp add: Let_def brain_full_def ten_messages_def AIResponse_new_def)
  have "user_interactions
        (learn_from_interaction (env_of service_ok) learning_full (lit ''lock'') (Mapping [])
           None)
        = (let xs = user_interactions learning_full
                      @ [\<lparr> i_timestamp = now_isoformat (env_of service_ok),
                           i_command = lit ''lock'', i_response = Mapping [],
                           i_feedback = None,
                           i_context = get_current_context (env_of service_ok) learning_full \<rparr>]
           in drop (length xs - 10000) xs)"
    using b g1 by blast
  then have b2: "user_interactions
        (learn_from_interaction (env_of service_ok) learning_full (lit ''lock'') (Mapping [])
           None)
        = replicate 9999 sample_interaction
          @ [\<lparr> i_timestamp = now_isoformat (env_of service_ok), i_command = lit ''lock'',
               i_response = Mapping [], i_feedback = None,
               i_context = get_current_context (env_of service_ok) learning_full \<rparr>]"
    by (simp add: Let_def learning_full_def LearningEngine_init_def)
  have "conversation_history
        (fold (\<lambda>(c, r) b. update_conversation_history b c r)
           [(lit ''lock'', AIResponse_new (lit ''Certainly'') 0.8),
            (lit ''status'', AIResponse_new (lit ''Certainly'') 0.8)] brain_full)
        = (let h = conversation_history brain_full
                     @ concat (map (\<lambda>(c, r). [\<lparr> role = lit ''user'', content = c \<rparr>,
                                                \<lparr> role = lit ''assistant'',
                                                   content = response_text r \<rparr>])
                                [(lit ''lock'', AIResponse_new (lit ''Certainly'') 0.8),
                                 (lit ''status'', AIResponse_new (lit ''Certainly'') 0.8)])
           in drop (length h - 20) h)"
    using b g3 by simp
  then have b3: "conversation_history
        (fold (\<lambda>(c, r) b. update_conversation_history b c r)
           [(lit ''lock'', AIResponse_new (lit ''Certainly'') 0.8),
            (lit ''status'', AIResponse_new (lit ''Certainly'') 0.8)] brain_full)
        = drop 4 (ten_messages @ ten_messages)
          @ [\<lparr> role = lit ''user'', content = lit ''lock'' \<rparr>,
             \<lparr> role = lit ''assistant'', content = lit ''Certainly'' \<rparr>,
             \<lparr> role = lit ''user'', content = lit ''status'' \<rparr>,
             \<lparr> role = lit ''assistant'', content = lit ''Certainly'' \<rparr>]"
    by (simp add: Let_def brain_full_def ten_messages_def AIResponse_new_def)
  have "length (user_interactions
        (fold (\<lambda>(c, r) le. learn_from_interaction (env_of service_ok) le c r None)
           [(lit ''lock'', Mapping []), (lit ''status'', Mapping [])] learning_full))
         = min 10000 (length (user_interactions learning_full)
                      + length [(lit ''lock'', Mapping []), (lit ''status'', Mapping [])])"
    using b g1 g2 by simp
  then have b4: "length (user_interactions
        (fold (\<lambda>(c, r) le. learn_from_interaction (env_of service_ok) le c r None)
           [(lit ''lock'', Mapping []), (lit ''status'', Mapping [])] learning_full)) = 10000"
    by (simp add: g2)
  from h1 h2 h3 a1 a2 a3 a4 g1 g2 g3 b1 b2 b3 b4 show ?thesis
    by (intro conjI)
qed

section \<open>The orchestrator and the dataclass\<close>

lemma lit_eq_iff: "lit s = lit t \<longleftrightarrow> s = t"
proof -
  have "inj (of_char :: char \<Rightarrow> nat)"
    by (rule injI) simp
  from inj_map_eq_map [OF this] show ?thesis by (simp add: lit_def)
qed

lemma lit_Nil_iff: "lit s = [] \<longleftrightarrow> s = []"
  by (simp add: lit_def)

lemma is_Exception_no_attribute: "is_Exception (no_attribute c a)"
  by (simp add: no_attribute_def)

lemma dispatch_and_learn_dataclass:
  "dispatch_and_learn e j command (Dataclass r)
     = on_exception j [] (no_attribute ''AIResponse'' ''get'')"
  by (simp add: dispatch_and_learn_def dispatch_system_def)

text \<open>
  \<open>process_command\<close> has three ways out, and each of them is the handler: the context
  assembly raised, the brain raised, or the brain returned and \<open>.get\<close> on its dataclass
  raised.
\<close>

lemma process_command_cases:
  "process_command e j command =
     (let j' = detect_and_switch e j command in
      case analyze_context e j' command of
        Inl ex \<Rightarrow> on_exception j' [] ex
      | Inr ctx \<Rightarrow>
          (case fst (brain_process_command e (brain j') command (Some ctx)) of
             Inl ex \<Rightarrow>
               on_exception
                 (j' \<lparr> brain := snd (brain_process_command e (brain j') command (Some ctx)) \<rparr>)
                 [] ex
           | Inr r \<Rightarrow>
               on_exception
                 (j' \<lparr> brain := snd (brain_process_command e (brain j') command (Some ctx)) \<rparr>)
                 [] (no_attribute ''AIResponse'' ''get'')))"
  by (auto simp: process_command_def Let_def dispatch_and_learn_dataclass
           split: sum.splits prod.splits)

lemma process_command_calls: "calls (process_command e j command) = []"
  by (auto simp: process_command_cases Let_def on_exception_def split: sum.splits)

lemma detect_and_switch_fields:
  "learning_engine (detect_and_switch e j command) = learning_engine j"
  "successful_operations (detect_and_switch e j command) = successful_operations j"
  "system_controller (detect_and_switch e j command) = system_controller j"
  "brain (detect_and_switch e j command) = brain j"
  by (simp_all add: detect_and_switch_def Let_def)

lemma process_command_untouched:
  "learning_engine (state (process_command e j command)) = learning_engine j"
  "successful_operations (state (process_command e j command)) = successful_operations j"
  by (auto simp: process_command_cases Let_def on_exception_def detect_and_switch_fields
           split: sum.splits)

lemma process_command_dataclass:
  assumes "analyze_context e (detect_and_switch e j command) command = Inr ctx"
    and "fst (brain_process_command e (brain (detect_and_switch e j command)) command
               (Some ctx)) = Inr r"
  shows "returned (process_command e j command)
           = Inr (error_response (state (process_command e j command))
                    (no_attribute ''AIResponse'' ''get''))"
  using assms
  by (simp add: process_command_cases Let_def on_exception_def is_Exception_no_attribute)

lemma val_get_Exception: "val_get v k d = Inl x \<Longrightarrow> is_Exception x"
  by (cases v) (auto simp: no_attribute_def)

lemma context_info_Exception: "context_info e ctx i = Inl x \<Longrightarrow> is_Exception x"
  by (auto simp: context_info_def bind_exn_def no_attribute_def
           split: sum.splits dest: val_get_Exception)

lemma prepare_messages_Exception:
  "prepare_messages e b command ctx i = Inl x \<Longrightarrow> is_Exception x"
  by (auto simp: prepare_messages_def Let_def bind_exn_def no_attribute_def
           split: option.splits sum.splits if_splits dest: context_info_Exception)

lemma brain_returns_service_ok:
  "requests_post e = service_ok \<Longrightarrow> \<exists>r. fst (brain_process_command e b command ctx) = Inr r"
  by (auto simp: brain_process_command_def Let_def get_ai_response_def try_except_def
                 bind_exn_def service_ok_def
           split: sum.splits dest: prepare_messages_Exception)

lemma analyze_context_repaired:
  "\<exists>ctx. analyze_context (env_repaired s) j command = Inr ctx"
  by (simp add: analyze_context_def get_environment_context_def get_user_context_def
                env_repaired_def env_of_def bind_exn_def try_except_def)

lemma requests_post_repaired: "requests_post (env_repaired s) = s"
  by (simp add: env_repaired_def env_of_def)

text \<open>
  Claim C1. Whenever the context assembly succeeds and the brain returns an \<open>AIResponse\<close>,
  the orchestrator returns the error dict of its handler, with the \<open>AttributeError\<close> of
  \<open>.get\<close> on the dataclass as \<open>error\<close>: what it does with a dataclass is its handler on that
  error and nothing else. For every command and every environment the orchestrator calls
  neither executor nor the learning engine, and leaves the learning engine and the counter
  of successful operations as they were.
\<close>

theorem orchestrator_rejects_dataclass:
  "(analyze_context e (detect_and_switch e j command) command = Inr ctx
      \<and> fst (brain_process_command e (brain (detect_and_switch e j command)) command
               (Some ctx)) = Inr r
      \<longrightarrow> returned (process_command e j command)
            = Inr (error_response (state (process_command e j command))
                     (no_attribute ''AIResponse'' ''get'')))
   \<and> dispatch_and_learn e j command (Dataclass r)
       = on_exception j [] (no_attribute ''AIResponse'' ''get'')
   \<and> calls (process_command e j command) = []
   \<and> learning_engine (state (process_command e j command)) = learning_engine j
   \<and> successful_operations (state (process_command e j command)) = successful_operations j"
  using process_command_dataclass [of e j command ctx r]
  by (simp add: dispatch_and_learn_dataclass process_command_calls process_command_untouched)

text \<open>
  The witness: the command \<open>lock\<close>, a service that answers 200, and a system controller
  with the two methods the context assembly calls.
\<close>

theorem orchestrator_rejects_dataclass_witness:
  "\<not> isl (analyze_context (env_repaired service_ok)
            (detect_and_switch (env_repaired service_ok) jarvis_ready (lit ''lock''))
            (lit ''lock''))
   \<and> \<not> isl (fst (brain_process_command (env_repaired service_ok)
                   (brain (detect_and_switch (env_repaired service_ok) jarvis_ready
                             (lit ''lock'')))
                   (lit ''lock'')
                   (Some (projr (analyze_context (env_repaired service_ok)
                                   (detect_and_switch (env_repaired service_ok) jarvis_ready
                                      (lit ''lock''))
                                   (lit ''lock''))))))
   \<and> returned (process_command (env_repaired service_ok) jarvis_ready (lit ''lock''))
       = Inr (error_response
                (state (process_command (env_repaired service_ok) jarvis_ready (lit ''lock'')))
                (no_attribute ''AIResponse'' ''get''))"
proof -
  obtain ctx where c:
    "analyze_context (env_repaired service_ok)
       (detect_and_switch (env_repaired service_ok) jarvis_ready (lit ''lock''))
       (lit ''lock'') = Inr ctx"
    using analyze_context_repaired by blast
  obtain r where r:
    "fst (brain_process_command (env_repaired service_ok)
            (brain (detect_and_switch (env_repaired service_ok) jarvis_ready (lit ''lock'')))
            (lit ''lock'') (Some ctx)) = Inr r"
    using brain_returns_service_ok [OF requests_post_repaired] by blast
  from orchestrator_rejects_dataclass
         [of "env_repaired service_ok" jarvis_ready "lit ''lock''" ctx r] c r
  show ?thesis by simp
qed

section \<open>The hardware fields\<close>

lemma brain_flags:
  "fst (brain_process_command e b command ctx) = Inr r \<Longrightarrow>
     \<not> requires_hardware_action r \<and> hardware_command r = None"
  by (auto simp: brain_process_command_def Let_def process_ai_response_def AIResponse_new_def
           split: sum.splits option.splits if_splits)

text \<open>
  Claim C10. Every \<open>AIResponse\<close> that the brain's \<open>process_command\<close> returns has
  \<open>requires_hardware_action = False\<close> and \<open>hardware_command = None\<close>, and the orchestrator
  never calls the hardware executor.
\<close>

theorem no_hardware_action:
  "(fst (brain_process_command e b command ctx) = Inr r \<longrightarrow>
      \<not> requires_hardware_action r \<and> hardware_command r = None)
   \<and> (\<forall>cmd params. HardwareExecute cmd params \<notin> set (calls (process_command e j command)))"
  using brain_flags [of e b command ctx r]
  by (simp add: process_command_calls)

text \<open>The witness: the command \<open>status\<close> with a service that answers 200.\<close>

theorem no_hardware_action_witness:
  "\<not> isl (fst (brain_process_command (env_repaired service_ok) brain_ready (lit ''status'')
                 None))
   \<and> \<not> requires_hardware_action
         (projr (fst (brain_process_command (env_repaired service_ok) brain_ready
                        (lit ''status'') None)))
   \<and> hardware_command
         (projr (fst (brain_process_command (env_repaired service_ok) brain_ready
                        (lit ''status'') None))) = None"
proof -
  obtain r where r:
    "fst (brain_process_command (env_repaired service_ok) brain_ready (lit ''status'') None)
       = Inr r"
    using brain_returns_service_ok [OF requests_post_repaired] by blast
  from no_hardware_action
         [of "env_repaired service_ok" brain_ready "lit ''status''" None r] r
  show ?thesis by simp
qed

section \<open>The handler of the orchestrator\<close>

lemma set_language_translations: "lm_translations (set_language u lm l) = lm_translations lm"
  by (simp add: set_language_def)

lemma detect_and_switch_translations:
  "lm_translations (jarvis_language_manager (detect_and_switch e j command))
     = lm_translations (jarvis_language_manager j)"
  by (simp add: detect_and_switch_def Let_def set_language_translations)

lemma process_command_language_manager:
  "jarvis_language_manager (state (process_command e j command))
     = jarvis_language_manager (detect_and_switch e j command)"
  by (auto simp: process_command_cases Let_def on_exception_def split: sum.splits)

lemma en_error_processing:
  "\<exists>v. map_of english_translations (lit ''error_processing'') = Some v \<and> v \<noteq> []"
  by (simp add: english_translations_def lit_eq_iff lit_Nil_iff)

lemma hi_error_processing:
  "\<exists>v. map_of hindi_translations (lit ''error_processing'') = Some v \<and> v \<noteq> []"
  by (simp add: hindi_translations_def lit_eq_iff)

lemma lookup_default:
  "lookup_text default_translations lang key =
     (if lang = lit ''english'' then map_of english_translations key
      else if lang = lit ''hindi'' then map_of hindi_translations key else None)"
  by (simp add: lookup_text_def default_translations_def)

lemma get_text_error_processing:
  assumes "lm_translations lm = default_translations"
  shows "get_text lm (lit ''error_processing'') None \<noteq> []"
  using en_error_processing hi_error_processing
  by (auto simp: get_text_def Let_def assms lookup_default split: option.splits)

lemma process_command_is_handler:
  "\<exists>j' ex. process_command e j command = on_exception j' [] ex"
  by (simp add: process_command_cases Let_def split: sum.splits) blast

lemma returned_cases:
  "(\<exists>ex. \<not> is_Exception ex \<and> returned (process_command e j command) = Inl ex)
   \<or> (\<exists>ex. is_Exception ex \<and> returned (process_command e j command)
              = Inr (error_response (state (process_command e j command)) ex))"
proof -
  obtain j' ex where p: "process_command e j command = on_exception j' [] ex"
    using process_command_is_handler by blast
  show ?thesis
    by (cases "is_Exception ex") (auto simp: p on_exception_def)
qed

lemma error_response_fields:
  "error_response j ex = Mapping m \<Longrightarrow>
     map_of m (lit ''success'') = Some (VBool False) \<and>
     map_of m (lit ''text'')
       = Some (VStr (get_text (jarvis_language_manager j) (lit ''error_processing'') None))"
  by (auto simp: error_response_def lit_eq_iff)

text \<open>
  Claim C3, amended. For every command and every environment, an exception that is an
  instance of \<open>Exception\<close> never leaves the orchestrator's \<open>process_command\<close>: what
  leaves it is \<open>KeyboardInterrupt\<close> or \<open>SystemExit\<close> only. Whatever it returns is the dict of
  its handler, with \<open>success\<close> false and the localized text of \<open>error_processing\<close>, which is
  not empty for the default translations.
\<close>

theorem process_command_catches_Exception:
  "(\<forall>ex. returned (process_command e j command) = Inl ex \<longrightarrow> \<not> is_Exception ex)
   \<and> (\<forall>obj. returned (process_command e j command) = Inr obj \<longrightarrow>
        (\<exists>m. obj = Mapping m
            \<and> map_of m (lit ''success'') = Some (VBool False)
            \<and> map_of m (lit ''text'')
                = Some (VStr (get_text (jarvis_language_manager
                                          (state (process_command e j command)))
                                (lit ''error_processing'') None))))
   \<and> (lm_translations (jarvis_language_manager j) = default_translations \<longrightarrow>
        get_text (jarvis_language_manager (state (process_command e j command)))
          (lit ''error_processing'') None \<noteq> [])"
proof -
  have a: "\<forall>ex. returned (process_command e j command) = Inl ex \<longrightarrow> \<not> is_Exception ex"
    using returned_cases [of e j command] by auto
  have b: "\<forall>obj. returned (process_command e j command) = Inr obj \<longrightarrow>
        (\<exists>m. obj = Mapping m
            \<and> map_of m (lit ''success'') = Some (VBool False)
            \<and> map_of m (lit ''text'')
                = Some (VStr (get_text (jarvis_language_manager
                                          (state (process_command e j command)))
                                (lit ''error_processing'') None)))"
    using returned_cases [of e j command] error_response_fields
    by (auto simp: error_response_def lit_eq_iff)
  have c: "lm_translations (jarvis_language_manager j) = default_translations \<longrightarrow>
        get_text (jarvis_language_manager (state (process_command e j command)))
          (lit ''error_processing'') None \<noteq> []"
    by (simp add: get_text_error_processing process_command_language_manager
                  detect_and_switch_translations)
  from a b c show ?thesis by blast
qed

lemma analyze_context_as_is:
  "analyze_context (env_of s) j command = Inl (missing_method ''get_system_load'')"
  by (simp add: analyze_context_def get_environment_context_def get_user_context_def
                env_of_def bind_exn_def try_except_def)

lemma analyze_context_interrupted:
  "analyze_context env_interrupted j command = Inl KeyboardInterrupt"
  by (simp add: analyze_context_def get_environment_context_def get_user_context_def
                env_interrupted_def env_of_def bind_exn_def try_except_def)

lemma analyze_context_repaired_eq:
  "analyze_context (env_repaired s) j command =
     Inr [(lit ''timestamp'', VDateTime 0),
          (lit ''language'', VStr (jarvis_current_language j)),
          (lit ''system_state'', VDict (system_state (system_controller j))),
          (lit ''user_history'', VDict []),
          (lit ''environment'',
             VDict [(lit ''time_of_day'', VStr (lit ''09:00'')),
                    (lit ''day_of_week'', VStr (lit ''Wednesday'')),
                    (lit ''system_load'', VFloat 0),
                    (lit ''network_status'', VDict []),
                    (lit ''active_applications'', VList [])])]"
  by (simp add: analyze_context_def get_environment_context_def get_user_context_def
                env_repaired_def env_of_def bind_exn_def try_except_def get_system_state_def)

lemma brain_interrupted:
  assumes "requests_post e = service_interrupted" "system_prompt b \<noteq> None"
    "map_of ctx (lit ''system_state'') = Some (VDict d)"
  shows "fst (brain_process_command e b command (Some ctx)) = Inl KeyboardInterrupt"
  using assms
  by (auto simp: brain_process_command_def Let_def get_ai_response_def try_except_def
                 bind_exn_def service_interrupted_def prepare_messages_def context_info_def
           split: sum.splits option.splits)

text \<open>
  The witness: the source as it stands, where the context assembly raises
  \<open>AttributeError\<close>.
\<close>

theorem process_command_catches_Exception_witness:
  "lm_translations (jarvis_language_manager jarvis_ready) = default_translations
   \<and> (\<exists>m. returned (process_command (env_of service_ok) jarvis_ready (lit ''lock''))
             = Inr (Mapping m)
          \<and> map_of m (lit ''success'') = Some (VBool False))
   \<and> get_text (jarvis_language_manager
                 (state (process_command (env_of service_ok) jarvis_ready (lit ''lock''))))
        (lit ''error_processing'') None \<noteq> []"
proof -
  have h: "lm_translations (jarvis_language_manager jarvis_ready) = default_translations"
    by (simp add: jarvis_ready_def LanguageManager_init_def)
  have r: "returned (process_command (env_of service_ok) jarvis_ready (lit ''lock''))
             = Inr (error_response
                      (state (process_command (env_of service_ok) jarvis_ready (lit ''lock'')))
                      (missing_method ''get_system_load''))"
    by (simp add: process_command_cases Let_def analyze_context_as_is on_exception_def
                  missing_method_def is_Exception_no_attribute)
  from process_command_catches_Exception [of "env_of service_ok" jarvis_ready "lit ''lock''"]
       h r
  show ?thesis by (auto simp: error_response_def)
qed

text \<open>
  Claim C3 as stated fails: a \<open>KeyboardInterrupt\<close> raised while the context is assembled,
  or while the text-generation service is awaited, leaves \<open>process_command\<close>.
\<close>

theorem process_command_propagates_interrupt:
  "returned (process_command env_interrupted jarvis_ready (lit ''lock'')) = Inl KeyboardInterrupt
   \<and> returned (process_command (env_repaired service_interrupted) jarvis_ready (lit ''lock''))
       = Inl KeyboardInterrupt"
proof -
  let ?e = "env_repaired service_interrupted"
  let ?j = "detect_and_switch ?e jarvis_ready (lit ''lock'')"
  have a: "returned (process_command env_interrupted jarvis_ready (lit ''lock''))
             = Inl KeyboardInterrupt"
    by (simp add: process_command_cases Let_def analyze_context_interrupted on_exception_def)
  obtain ctx where c: "analyze_context ?e ?j (lit ''lock'') = Inr ctx"
    and s: "map_of ctx (lit ''system_state'') = Some (VDict (system_state (system_controller ?j)))"
    by (simp add: analyze_context_repaired_eq lit_eq_iff)
  have p: "system_prompt (brain ?j) \<noteq> None"
    by (simp add: detect_and_switch_fields jarvis_ready_def brain_ready_def)
  have "fst (brain_process_command ?e (brain ?j) (lit ''lock'') (Some ctx))
          = Inl KeyboardInterrupt"
    by (rule brain_interrupted [OF requests_post_repaired p s])
  with c have b: "returned (process_command ?e jarvis_ready (lit ''lock''))
                    = Inl KeyboardInterrupt"
    by (simp add: process_command_cases Let_def on_exception_def)
  from a b show ?thesis by blast
qed

section \<open>The context assembler\<close>

lemma analyze_context_network_down:
  "analyze_context env_network_down j command = Inl (Exception (lit ''unreachable''))"
  by (simp add: analyze_context_def get_environment_context_def get_user_context_def
                env_network_down_def env_repaired_def env_of_def bind_exn_def try_except_def)

lemma analyze_context_Inr_iff:
  "analyze_context e j command = Inr ctx \<longleftrightarrow>
     (\<exists>history load status apps.
        get_user_context e = Inr history \<and> get_system_load e = Inr load
        \<and> network_get_status e = Inr status \<and> get_active_applications e = Inr apps
        \<and> ctx = [(lit ''timestamp'', now e),
                 (lit ''language'', VStr (jarvis_current_language j)),
                 (lit ''system_state'', get_system_state (system_controller j)),
                 (lit ''user_history'', history),
                 (lit ''environment'',
                    VDict [(lit ''time_of_day'', VStr (strftime_HM e)),
                           (lit ''day_of_week'', VStr (strftime_A e)),
                           (lit ''system_load'', load),
                           (lit ''network_status'', status),
                           (lit ''active_applications'', apps)])])"
  by (auto simp: analyze_context_def get_environment_context_def bind_exn_def
           split: sum.splits)

lemma get_user_context_absorbs:
  "user_context_body e = Inl (Exception m) \<Longrightarrow> get_user_context e = Inr (VDict [])"
  by (simp add: get_user_context_def try_except_def)

text \<open>
  Claim C9, amended. The context assembler has no failure handling of its own: it returns
  a context record exactly when every collaborator call returns, and then every field holds
  what the collaborator returned; when a call raises, no record is built (the exception
  leaves \<open>_analyze_context\<close>). Only the interaction-history provider absorbs an
  \<open>Exception\<close> of its own, returning the empty dict as its field.
\<close>

theorem analyze_context_all_or_nothing:
  "(analyze_context e j command = Inr ctx \<longleftrightarrow>
     (\<exists>history load status apps.
        get_user_context e = Inr history \<and> get_system_load e = Inr load
        \<and> network_get_status e = Inr status \<and> get_active_applications e = Inr apps
        \<and> ctx = [(lit ''timestamp'', now e),
                 (lit ''language'', VStr (jarvis_current_language j)),
                 (lit ''system_state'', get_system_state (system_controller j)),
                 (lit ''user_history'', history),
                 (lit ''environment'',
                    VDict [(lit ''time_of_day'', VStr (strftime_HM e)),
                           (lit ''day_of_week'', VStr (strftime_A e)),
                           (lit ''system_load'', load),
                           (lit ''network_status'', status),
                           (lit ''active_applications'', apps)])]))
   \<and> (user_context_body e = Inl (Exception m) \<longrightarrow> get_user_context e = Inr (VDict []))"
  using analyze_context_Inr_iff [of e j command ctx] get_user_context_absorbs [of e m]
  by blast

text \<open>
  The witness: the dict display of \<open>get_user_context\<close> raises; the record is built with the
  empty dict as \<open>user_history\<close>.
\<close>

theorem analyze_context_all_or_nothing_witness:
  "user_context_body env_history_failing = Inl (Exception (lit ''bad data''))
   \<and> get_user_context env_history_failing = Inr (VDict [])
   \<and> (\<exists>ctx. analyze_context env_history_failing jarvis_ready (lit ''lock'') = Inr ctx
            \<and> map_of ctx (lit ''user_history'') = Some (VDict []))"
proof -
  have h: "user_context_body env_history_failing = Inl (Exception (lit ''bad data''))"
    by (simp add: env_history_failing_def env_repaired_def env_of_def)
  have l: "get_system_load env_history_failing = Inr (VFloat 0)"
          "network_get_status env_history_failing = Inr (VDict [])"
          "get_active_applications env_history_failing = Inr (VList [])"
    by (simp_all add: env_history_failing_def env_repaired_def env_of_def)
  from analyze_context_all_or_nothing
         [of env_history_failing jarvis_ready "lit ''lock''" _ "lit ''bad data''"] h l
  show ?thesis by (auto simp: lit_eq_iff)
qed

text \<open>
  Claim C9 as stated fails: with the system controller of the source, which lacks
  \<open>get_system_load\<close>, and likewise with a network manager that raises, the context assembler
  returns no record at all.
\<close>

theorem analyze_context_aborts:
  "analyze_context (env_of service_ok) jarvis_ready (lit ''lock'')
     = Inl (missing_method ''get_system_load'')
   \<and> analyze_context env_network_down jarvis_ready (lit ''lock'')
     = Inl (Exception (lit ''unreachable''))"
  by (simp add: analyze_context_as_is analyze_context_network_down)

section \<open>The message list\<close>

lemma prepare_messages_with_context:
  assumes "system_prompt b = Some prompt" "d \<noteq> []" "context_info e d i = Inr info"
  shows "prepare_messages e b command (Some d) i =
           Inr ([\<lparr> role = lit ''system'', content = prompt \<rparr>]
                @ drop (length (conversation_history b) - 5) (conversation_history b)
                @ [\<lparr> role = lit ''system'', content = info \<rparr>]
                @ [\<lparr> role = lit ''user'', content = command \<rparr>])"
  using assms by (simp add: prepare_messages_def Let_def bind_exn_def)

lemma prepare_messages_without_context:
  assumes "system_prompt b = Some prompt" "ctx = None \<or> ctx = Some []"
  shows "prepare_messages e b command ctx i =
           Inr ([\<lparr> role = lit ''system'', content = prompt \<rparr>]
                @ drop (length (conversation_history b) - 5) (conversation_history b)
                @ [\<lparr> role = lit ''user'', content = command \<rparr>])"
  using assms by (auto simp: prepare_messages_def Let_def bind_exn_def)

lemma ten_roles:
  "map role ten_messages = [lit ''user'', lit ''assistant'', lit ''user'', lit ''assistant'',
     lit ''user'', lit ''assistant'', lit ''user'', lit ''assistant'', lit ''user'', lit ''assistant'']"
  by (simp add: ten_messages_def)

lemma context_info_example:
  "\<exists>info. context_info e [(lit ''language'', VStr (lit ''english''))] i = Inr info"
  by (simp add: context_info_def bind_exn_def lit_eq_iff)

text \<open>
  Claim C8, amended. The message list consists, in order, of the system preamble, the last
  five entries of the conversation history (all of them when there are fewer; five
  messages, not five exchanges), one context-summary message when a non-empty context is
  given and none otherwise, and the user command.
\<close>

theorem prepare_messages_order:
  "(system_prompt b = Some prompt \<and> d \<noteq> [] \<and> context_info e d i = Inr info \<longrightarrow>
      prepare_messages e b command (Some d) i =
        Inr ([\<lparr> role = lit ''system'', content = prompt \<rparr>]
             @ drop (length (conversation_history b) - 5) (conversation_history b)
             @ [\<lparr> role = lit ''system'', content = info \<rparr>]
             @ [\<lparr> role = lit ''user'', content = command \<rparr>]))
   \<and> (system_prompt b = Some prompt \<and> (ctx = None \<or> ctx = Some []) \<longrightarrow>
      prepare_messages e b command ctx i =
        Inr ([\<lparr> role = lit ''system'', content = prompt \<rparr>]
             @ drop (length (conversation_history b) - 5) (conversation_history b)
             @ [\<lparr> role = lit ''user'', content = command \<rparr>]))
   \<and> length (drop (length (conversation_history b) - 5) (conversation_history b)) \<le> 5"
  using prepare_messages_with_context [of b prompt d e i info command]
        prepare_messages_without_context [of b prompt ctx e command i]
  by auto

text \<open>The witness: a brain with ten messages of history and a context with one entry.\<close>

theorem prepare_messages_order_witness:
  "system_prompt (brain_ready \<lparr> conversation_history := ten_messages \<rparr>)
     = Some (lit ''You are JARVIS'')
   \<and> \<not> isl (context_info (env_of service_ok) [(lit ''language'', VStr (lit ''english''))]
              (analyze_intent ascii_only (lit ''hello'')))
   \<and> prepare_messages (env_of service_ok)
        (brain_ready \<lparr> conversation_history := ten_messages \<rparr>) (lit ''hello'')
        (Some [(lit ''language'', VStr (lit ''english''))])
        (analyze_intent ascii_only (lit ''hello''))
      = Inr ([\<lparr> role = lit ''system'', content = lit ''You are JARVIS'' \<rparr>]
             @ drop 5 ten_messages
             @ [\<lparr> role = lit ''system'',
                  content = projr (context_info (env_of service_ok)
                                     [(lit ''language'', VStr (lit ''english''))]
                                     (analyze_intent ascii_only (lit ''hello''))) \<rparr>]
             @ [\<lparr> role = lit ''user'', content = lit ''hello'' \<rparr>])"
proof -
  obtain info where i:
    "context_info (env_of service_ok) [(lit ''language'', VStr (lit ''english''))]
       (analyze_intent ascii_only (lit ''hello'')) = Inr info"
    using context_info_example by blast
  have p: "system_prompt (brain_ready \<lparr> conversation_history := ten_messages \<rparr>)
             = Some (lit ''You are JARVIS'')"
    by (simp add: brain_ready_def)
  have l: "length ten_messages = 10"
    by (simp add: ten_messages_def)
  from prepare_messages_order
         [of "brain_ready \<lparr> conversation_history := ten_messages \<rparr>" "lit ''You are JARVIS''"
             "[(lit ''language'', VStr (lit ''english''))]" "env_of service_ok"
             "analyze_intent ascii_only (lit ''hello'')" info "lit ''hello''" None] p i
  show ?thesis by (simp add: l)
qed


text \<open>
  Claim C8 as stated fails: with ten messages of history (five exchanges) the list sent has
  eight messages, of which five come from the history, the first of them an answer of the
  assistant; the list of the specification has thirteen.
\<close>

theorem prepare_messages_five_entries:
  "map_sum id (map role)
     (prepare_messages (env_of service_ok) (brain_ready \<lparr> conversation_history := ten_messages \<rparr>)
        (lit ''hello'') (Some [(lit ''language'', VStr (lit ''english''))])
        (analyze_intent ascii_only (lit ''hello'')))
     = Inr [lit ''system'', lit ''assistant'', lit ''user'', lit ''assistant'', lit ''user'',
            lit ''assistant'', lit ''system'', lit ''user'']
   \<and> map role (spec_messages (lit ''You are JARVIS'') ten_messages [] (lit ''hello''))
     = [lit ''system'', lit ''user'', lit ''assistant'', lit ''user'', lit ''assistant'',
        lit ''user'', lit ''assistant'', lit ''user'', lit ''assistant'', lit ''user'',
        lit ''assistant'', lit ''system'', lit ''user'']"
proof -
  obtain info where i: "context_info (env_of service_ok) [(lit ''language'', VStr (lit ''english''))]
        (analyze_intent ascii_only (lit ''hello'')) = Inr info"
    using context_info_example by blast
  have l: "length ten_messages = 10" by (simp add: ten_messages_def)
  have d: "map role (drop 5 ten_messages) = [lit ''assistant'', lit ''user'', lit ''assistant'', lit ''user'',
            lit ''assistant'']"
    by (simp add: ten_messages_def)
  have "prepare_messages (env_of service_ok) (brain_ready \<lparr> conversation_history := ten_messages \<rparr>)
        (lit ''hello'') (Some [(lit ''language'', VStr (lit ''english''))])
        (analyze_intent ascii_only (lit ''hello'')) =
      Inr ([\<lparr> role = lit ''system'', content = lit ''You are JARVIS'' \<rparr>]
                @ drop 5 ten_messages
                @ [\<lparr> role = lit ''system'', content = info \<rparr>]
                @ [\<lparr> role = lit ''user'', content = lit ''hello'' \<rparr>])"
    using prepare_messages_with_context [OF _ _ i, of "brain_ready \<lparr> conversation_history := ten_messages \<rparr>" "lit ''You are JARVIS''" "lit ''hello''"]
    by (simp add: brain_ready_def l)
  then show ?thesis
    by (simp add: d spec_messages_def l ten_roles)
qed


section \<open>A failing text-generation service\<close>

lemma intent_parameters_empty: "intent_parameters (analyze_intent u command) = []"
  by (simp add: analyze_intent_def Let_def)

lemma shutdown_intent:
  "intent_type (analyze_intent u (lit ''shutdown'')) = lit ''system_control''"
proof -
  have "contains_ci (lit ''shutdown'') (lit ''shutdown'')" by code_simp
  from shutdown_first [OF contains_ci_lower [OF this shutdown_ascii]] show ?thesis by simp
qed

lemma shutdown_action:
  "check_system_commands (lit ''shutdown'') (analyze_intent u (lit ''shutdown''))
     = Some \<lparr> required = True, action_type = lit ''system_control'',
              action_command = lit ''shutdown'', action_parameters = [] \<rparr>"
  by (simp add: check_system_commands_def shutdown_intent intent_parameters_empty)

lemma brain_service_unavailable:
  assumes "system_prompt b = Some p" "requests_post e = service_unavailable"
  shows "fst (brain_process_command e b command None)
           = Inr (process_ai_response (get_text (language_manager b) (lit ''api_error'') None)
                    (check_system_commands command (analyze_intent (unicode e) command)) None)"
  using assms
  by (simp add: brain_process_command_def Let_def prepare_messages_def get_ai_response_def
                try_except_def bind_exn_def service_unavailable_def)

lemma brain_service_timeout:
  assumes "system_prompt b = Some p" "requests_post e = service_timeout"
  shows "fst (brain_process_command e b command None)
           = Inr (process_ai_response (get_text (language_manager b) (lit ''ai_error'') None)
                    (check_system_commands command (analyze_intent (unicode e) command)) None)"
  using assms
  by (simp add: brain_process_command_def Let_def prepare_messages_def get_ai_response_def
                try_except_def bind_exn_def service_timeout_def)

lemma api_error_text:
  "get_text LanguageManager_init (lit ''api_error'') None
     = lit ''I'' @ [39] @ lit ''m experiencing connectivity issues with my AI systems, Sir.''"
  by (simp add: get_text_def Let_def LanguageManager_init_def lookup_text_def
                default_translations_def english_translations_def lit_eq_iff)

lemma ai_error_text:
  "get_text LanguageManager_init (lit ''ai_error'') None
     = lit ''My AI processing systems are temporarily unavailable, Sir.''"
  by (simp add: get_text_def Let_def LanguageManager_init_def lookup_text_def
                default_translations_def english_translations_def lit_eq_iff)

text \<open>
  Claim C2 at its failing input: the command \<open>shutdown\<close> while the service answers 503, and
  while the request times out. The brain returns the localized error text, but with
  \<open>success\<close> true, confidence 0.8 and the system action requested.
\<close>

theorem api_failure_reported_as_success:
  "map_sum id (\<lambda>r. (success r, confidence r, requires_system_action r, system_command r,
                    response_text r))
     (fst (brain_process_command (env_of service_unavailable) brain_ready (lit ''shutdown'') None))
     = Inr (True, 0.8, True, Some (lit ''system_control''),
            lit ''I'' @ [39] @ lit ''m experiencing connectivity issues with my AI systems, Sir.'')
   \<and> map_sum id (\<lambda>r. (success r, confidence r, requires_system_action r, system_command r,
                    response_text r))
     (fst (brain_process_command (env_of service_timeout) brain_ready (lit ''shutdown'') None))
     = Inr (True, 0.8, True, Some (lit ''system_control''),
            lit ''My AI processing systems are temporarily unavailable, Sir.'')"
proof -
  have p: "system_prompt brain_ready = Some (lit ''You are JARVIS'')"
    by (simp add: brain_ready_def)
  have m: "language_manager brain_ready = LanguageManager_init"
    by (simp add: brain_ready_def JARVISBrain_init_def)
  have u: "unicode (env_of s) = ascii_only" "requests_post (env_of s) = s" for s
    by (simp_all add: env_of_def)
  show ?thesis
    by (simp add: brain_service_unavailable [OF p] brain_service_timeout [OF p] u m
                  shutdown_action process_ai_response_def AIResponse_new_def
                  api_error_text ai_error_text)
qed

section \<open>The dispatch\<close>












end
